theory Spec2Isabelle
  imports Main "HOL-Library.Monad_Syntax"
begin

text \<open>
  A model of the extraction and reconciliation code of \<^verbatim>\<open>src/app.py\<close>: the text
  scanner \<^verbatim>\<open>extract_data_from_text\<close>, the column lookup \<^verbatim>\<open>find_column_by_name\<close>, the
  strategy chain \<^verbatim>\<open>extract_data_from_email\<close> and the matching loop of
  \<^verbatim>\<open>process_emails\<close>. Library calls whose results the code only consumes (reading a
  workbook, reading the tables of an HTML body, stripping HTML, converting a cell with
  \<^verbatim>\<open>str\<close> and \<^verbatim>\<open>int\<close>) appear through their outcomes; a raised exception is the
  outcome \<open>None\<close>, and each \<^verbatim>\<open>try\<close> of the source is the case distinction on it.
\<close>

section \<open>Python strings\<close>

text \<open>
  Text is modelled as \<open>string\<close>, a list of 8-bit characters, read as ASCII. The
  functions below are the ASCII behaviour of the \<^verbatim>\<open>str\<close> methods and character
  classes that \<^verbatim>\<open>app.py\<close> calls; characters above 127 are outside the model
  (Python's Unicode case mapping, digits and spaces are not represented).
\<close>

text \<open>\<^verbatim>\<open>str.isspace\<close> on ASCII: tab, LF, VT, FF, CR, the separators 28 to 31, space.\<close>

definition whitespace :: string where
  "whitespace = [CHR 0x09, CHR 0x0A, CHR 0x0B, CHR 0x0C, CHR 0x0D,
                 CHR 0x1C, CHR 0x1D, CHR 0x1E, CHR 0x1F, CHR 0x20]"

definition is_space :: "char \<Rightarrow> bool" where
  "is_space c = (c \<in> set whitespace)"

definition is_digit :: "char \<Rightarrow> bool" where
  "is_digit c = (c \<in> set ''0123456789'')"

definition lowercase :: string where
  "lowercase = ''abcdefghijklmnopqrstuvwxyz''"

definition uppercase :: string where
  "uppercase = ''ABCDEFGHIJKLMNOPQRSTUVWXYZ''"

definition upper_char :: "char \<Rightarrow> char" where
  "upper_char c = (case map_of (zip lowercase uppercase) c of Some u \<Rightarrow> u | None \<Rightarrow> c)"

definition lower_char :: "char \<Rightarrow> char" where
  "lower_char c = (case map_of (zip uppercase lowercase) c of Some l \<Rightarrow> l | None \<Rightarrow> c)"

definition upper :: "string \<Rightarrow> string" where
  "upper s = map upper_char s"

definition lower :: "string \<Rightarrow> string" where
  "lower s = map lower_char s"

text \<open>\<^verbatim>\<open>s.strip(chars)\<close>: drop the characters of a class from both ends.\<close>

definition strip_where :: "(char \<Rightarrow> bool) \<Rightarrow> string \<Rightarrow> string" where
  "strip_where P s = rev (dropWhile P (rev (dropWhile P s)))"

definition strip :: "string \<Rightarrow> string" where
  "strip s = strip_where is_space s"

definition startswith :: "string \<Rightarrow> string \<Rightarrow> bool" where
  "startswith s p = (take (length p) s = p)"

definition endswith :: "string \<Rightarrow> string \<Rightarrow> bool" where
  "endswith s p = (length p \<le> length s \<and> drop (length s - length p) s = p)"

text \<open>\<^verbatim>\<open>str(n)\<close> for an integer: decimal digits, a leading minus sign when negative.\<close>

fun digits_of :: "nat \<Rightarrow> string" where
  "digits_of n =
     (if n < 10 then [''0123456789'' ! n]
      else digits_of (n div 10) @ [''0123456789'' ! (n mod 10)])"

declare digits_of.simps [simp del]

definition str_int :: "int \<Rightarrow> string" where
  "str_int i = (if i < 0 then CHR ''-'' # digits_of (nat (- i)) else digits_of (nat i))"

text \<open>
  \<^verbatim>\<open>s.split()\<close>: the maximal runs of characters that are not white space. The first
  argument is the word being read.
\<close>

fun split_from :: "string \<Rightarrow> string \<Rightarrow> string list" where
  "split_from w [] = (if w = [] then [] else [w])"
| "split_from w (c # cs) =
     (if is_space c then (if w = [] then split_from [] cs else w # split_from [] cs)
      else split_from (w @ [c]) cs)"

definition split :: "string \<Rightarrow> string list" where
  "split s = split_from [] s"

text \<open>
  \<^verbatim>\<open>s.splitlines()\<close>: a line ends at LF, VT, FF, CR, CR LF or one of the separators
  28 to 30; a line end at the end of the text opens no further line. The first argument
  is the line being read.
\<close>

definition is_linebreak :: "char \<Rightarrow> bool" where
  "is_linebreak c = (c \<in> set [CHR 0x0A, CHR 0x0B, CHR 0x0C, CHR 0x0D, CHR 0x1C, CHR 0x1D, CHR 0x1E])"

fun splitlines_from :: "string \<Rightarrow> string \<Rightarrow> string list" where
  "splitlines_from l [] = (if l = [] then [] else [l])"
| "splitlines_from l [c] = (if is_linebreak c then [l] else [l @ [c]])"
| "splitlines_from l (c # d # cs) =
     (if c = CHR 0x0D \<and> d = CHR 0x0A then l # splitlines_from [] cs
      else if is_linebreak c then l # splitlines_from [] (d # cs)
      else splitlines_from (l @ [c]) (d # cs))"

definition splitlines :: "string \<Rightarrow> string list" where
  "splitlines s = splitlines_from [] s"

section \<open>Data model\<close>

text \<open>
  A pandas cell is modelled by what the code observes of it: the text \<^verbatim>\<open>str(v)\<close>,
  the outcome of \<^verbatim>\<open>int(v)\<close> (\<open>None\<close> when the conversion raises, as it does for
  NaN, for \<^verbatim>\<open>None\<close> and for text that is no integer literal) and \<^verbatim>\<open>pd.isna(v)\<close>.
\<close>

record cell =
  as_str :: string
  as_int :: "int option"
  is_na :: bool

text \<open>The dictionaries \<^verbatim>\<open>{'part': ..., 'req_qty': ...}\<close> that extraction returns.\<close>

record requisition_item =
  part :: string
  req_qty :: int

text \<open>
  A row of the inventory frame returned by \<^verbatim>\<open>load_inventory\<close>. The column
  \<^verbatim>\<open>part_number\<close> always exists and holds text; the columns \<^verbatim>\<open>quantity\<close> and
  \<^verbatim>\<open>condition\<close> may be absent from the frame (\<open>None\<close>).
\<close>

record inventory_record =
  part_number :: string
  quantity :: "cell option"
  condition :: "cell option"

text \<open>
  The dictionaries appended to \<^verbatim>\<open>results\<close> in \<^verbatim>\<open>process_emails\<close>. The keys
  \<^verbatim>\<open>part\<close>, \<^verbatim>\<open>condition\<close> and \<^verbatim>\<open>req_qty\<close> carry the prefix \<open>res_\<close> here; the
  condition is kept as the text the report prints.
\<close>

record reconciliation_result =
  res_part :: string
  status :: string
  res_condition :: string
  res_req_qty :: int
  stock_qty :: int
  remaining :: int

section \<open>Reconciliation (the loop body of \<^verbatim>\<open>process_emails\<close>)\<close>

text \<open>\<^verbatim>\<open>df[df['part_number'] == part]\<close>: the records equal to the part, in load order.\<close>

definition exact_match :: "inventory_record list \<Rightarrow> string \<Rightarrow> inventory_record list" where
  "exact_match df p = filter (\<lambda>r. part_number r = p) df"

text \<open>\<^verbatim>\<open>df[df['part_number'].str.startswith(part, na=False)]\<close>.\<close>

definition prefix_match :: "inventory_record list \<Rightarrow> string \<Rightarrow> inventory_record list" where
  "prefix_match df p = filter (\<lambda>r. startswith (part_number r) p) df"

text \<open>
  \<^verbatim>\<open>try: stock_qty = int(row['quantity'])\<close> / \<^verbatim>\<open>except: stock_qty = 0\<close>: an absent
  column (KeyError) and a failed conversion both give 0.
\<close>

definition stock_of :: "inventory_record \<Rightarrow> int" where
  "stock_of row =
     (case quantity row of
        None \<Rightarrow> 0
      | Some c \<Rightarrow> (case as_int c of None \<Rightarrow> 0 | Some n \<Rightarrow> n))"

text \<open>\<^verbatim>\<open>row.get('condition', 'N/A')\<close>, then \<^verbatim>\<open>'N/A'\<close> when \<^verbatim>\<open>pd.isna\<close> holds.\<close>

definition condition_of :: "inventory_record \<Rightarrow> string" where
  "condition_of row =
     (case condition row of
        None \<Rightarrow> ''N/A''
      | Some c \<Rightarrow> (if is_na c then ''N/A'' else as_str c))"

definition classify :: "int \<Rightarrow> int \<Rightarrow> string \<times> int" where
  "classify stock req =
     (if stock = 0 then (''OUT OF STOCK'', 0)
      else if stock \<ge> req then (''IN STOCK'', stock - req)
      else (''LOW STOCK (Have '' @ str_int stock @ '')'', 0))"

definition reconcile_item :: "inventory_record list \<Rightarrow> requisition_item \<Rightarrow> reconciliation_result" where
  "reconcile_item df item =
     (let p = part item;
          q = req_qty item;
          m0 = exact_match df p;
          m = (if m0 = [] then prefix_match df p else m0);
          shown = (if m0 = [] \<and> m \<noteq> []
                   then p @ '' (Matched: '' @ part_number (hd m) @ '')'' else p)
      in case m of
           [] \<Rightarrow> \<lparr>res_part = shown, status = ''MISSING (Unknown Part)'', res_condition = ''N/A'',
                  res_req_qty = q, stock_qty = 0, remaining = 0\<rparr>
         | row # _ \<Rightarrow>
             (let s = stock_of row;
                  (st, rem) = classify s q
              in \<lparr>res_part = shown, status = st, res_condition = condition_of row,
                  res_req_qty = q, stock_qty = s, remaining = rem\<rparr>))"

definition reconcile :: "inventory_record list \<Rightarrow> requisition_item list \<Rightarrow> reconciliation_result list" where
  "reconcile df items = map (reconcile_item df) items"

text \<open>The record that \<^verbatim>\<open>match.iloc[0]\<close> reads, when there is one.\<close>

definition matched_record :: "inventory_record list \<Rightarrow> string \<Rightarrow> inventory_record option" where
  "matched_record df p =
     (case exact_match df p of
        r # _ \<Rightarrow> Some r
      | [] \<Rightarrow> (case prefix_match df p of r # _ \<Rightarrow> Some r | [] \<Rightarrow> None))"

section \<open>The text scanner (\<^verbatim>\<open>extract_data_from_text\<close>)\<close>

subsection \<open>Its regular expressions\<close>

text \<open>
  Each pattern of the scanner is written out as the function Python's backtracking
  matcher computes for it. A literal under \<^verbatim>\<open>re.IGNORECASE\<close> is compared in upper
  case; \<open>imatch\<close> returns the text after the literal.
\<close>

definition imatch :: "string \<Rightarrow> string \<Rightarrow> string option" where
  "imatch lit s = (if upper (take (length lit) s) = lit then Some (drop (length lit) s) else None)"

text \<open>The class \<^verbatim>\<open>[:\s]\<close>, and the class \<^verbatim>\<open>[A-Z0-9\-\.]\<close> under \<^verbatim>\<open>re.IGNORECASE\<close>.\<close>

definition is_sep :: "char \<Rightarrow> bool" where
  "is_sep c = (c = CHR '':'' \<or> is_space c)"

definition is_code :: "char \<Rightarrow> bool" where
  "is_code c = (upper_char c \<in> set uppercase \<or> is_digit c \<or> c = CHR ''-'' \<or> c = CHR ''.'')"

text \<open>
  \<^verbatim>\<open>[:\s]+(C+)\<close> for a class \<open>C\<close> disjoint from \<^verbatim>\<open>[:\s]\<close>: both runs are
  maximal, since giving back a character of the first run leaves a separator where the
  second run must start. The result is the captured group and the text after the match.
\<close>

definition sep_then :: "(char \<Rightarrow> bool) \<Rightarrow> string \<Rightarrow> (string \<times> string) option" where
  "sep_then C s =
     (let r = dropWhile is_sep s; cap = takeWhile C r
      in if takeWhile is_sep s \<noteq> [] \<and> cap \<noteq> [] then Some (cap, dropWhile C r) else None)"

text \<open>
  \<^verbatim>\<open>(?:L1|L2|...)[:\s]+(C+)\<close> at the head of the text: the alternatives are tried in
  the order written, and a later one is tried when an earlier one matches but the rest
  of the pattern fails after it.
\<close>

fun labelled :: "string list \<Rightarrow> (char \<Rightarrow> bool) \<Rightarrow> string \<Rightarrow> (string \<times> string) option" where
  "labelled [] C s = None"
| "labelled (l # ls) C s =
     (case imatch l s \<bind> sep_then C of
        Some m \<Rightarrow> Some m
      | None \<Rightarrow> labelled ls C s)"

text \<open>
  \<^verbatim>\<open>qty_regex\<close>,
  \<^verbatim>\<open>(?:QTY|QUANTITY|COUNT)[:\s]+(\d+)|(\d+)\s*(?:EA|EACH|PC|PCS)\<close>, at the head
  of the text, giving \<^verbatim>\<open>group(1) or group(2)\<close>. In the second alternative the
  digit run and the white space are maximal: a shorter digit run is followed by a digit,
  a shorter space run by a space, and neither starts a unit word.
\<close>

definition qty_at :: "string \<Rightarrow> string option" where
  "qty_at s =
     (case labelled [''QTY'', ''QUANTITY'', ''COUNT''] is_digit s of
        Some (d, _) \<Rightarrow> Some d
      | None \<Rightarrow>
          (let d = takeWhile is_digit s;
               r = dropWhile is_space (dropWhile is_digit s)
           in if d \<noteq> [] \<and> list_ex (\<lambda>w. imatch w r \<noteq> None) [''EA'', ''EACH'', ''PC'', ''PCS'']
              then Some d else None))"

text \<open>\<^verbatim>\<open>qty_regex.search\<close>: the match at the leftmost position that has one.\<close>

fun qty_search :: "string \<Rightarrow> string option" where
  "qty_search [] = None"
| "qty_search (c # cs) = (case qty_at (c # cs) of Some d \<Rightarrow> Some d | None \<Rightarrow> qty_search cs)"

text \<open>
  \<^verbatim>\<open>explicit_part_regex\<close>,
  \<^verbatim>\<open>(?:P/N|PN|PART|PART NO|PART NUMBER|ALT|ALTERNATE)[:\s]+([A-Z0-9\-\.]+)\<close>,
  at the head of the text.
\<close>

definition explicit_at :: "string \<Rightarrow> (string \<times> string) option" where
  "explicit_at s =
     labelled [''P/N'', ''PN'', ''PART'', ''PART NO'', ''PART NUMBER'', ''ALT'', ''ALTERNATE'']
       is_code s"

text \<open>
  \<^verbatim>\<open>explicit_part_regex.findall\<close>: the captured groups of the successive matches,
  each search resuming where the previous match ended. A match is never empty, so the
  text after it is shorter, which is what makes the search end.
\<close>

lemma sep_then_shorter: "sep_then C t = Some (cap, r) \<Longrightarrow> length r < length t"
proof -
  assume "sep_then C t = Some (cap, r)"
  then have ne: "takeWhile is_sep t \<noteq> []" and r: "r = dropWhile C (dropWhile is_sep t)"
    by (auto simp: sep_then_def Let_def split: if_splits)
  have "length (takeWhile is_sep t) + length (dropWhile is_sep t) = length t"
    by (metis length_append takeWhile_dropWhile_id)
  moreover have "length r \<le> length (dropWhile is_sep t)"
    unfolding r by (rule length_dropWhile_le)
  moreover from ne have "0 < length (takeWhile is_sep t)" by simp
  ultimately show ?thesis by linarith
qed

lemma imatch_shorter: "imatch l s = Some t \<Longrightarrow> length t \<le> length s"
  by (auto simp: imatch_def split: if_splits)

lemma labelled_shorter: "labelled ls C s = Some (cap, r) \<Longrightarrow> length r < length s"
proof (induction ls)
  case Nil
  then show ?case by simp
next
  case (Cons l ls)
  show ?case
  proof (cases "imatch l s \<bind> sep_then C")
    case None
    with Cons show ?thesis by simp
  next
    case (Some m)
    with Cons.prems have m: "m = (cap, r)" by simp
    from Some obtain t where t: "imatch l s = Some t" "sep_then C t = Some m"
      by (auto split: bind_splits)
    from t m show ?thesis
      using imatch_shorter [of l s t] sep_then_shorter [of C t cap r] by simp
  qed
qed

function findall_explicit :: "string \<Rightarrow> string list" where
  "findall_explicit [] = []"
| "findall_explicit (c # cs) =
     (case explicit_at (c # cs) of
        Some (cap, r) \<Rightarrow> cap # findall_explicit r
      | None \<Rightarrow> findall_explicit cs)"
  by pat_completeness auto
termination
proof (relation "measure length")
  show "wf (measure length)" by simp
next
  fix c :: char and cs :: string and m cap r
  assume "explicit_at (c # cs) = Some m" "(cap, r) = m"
  then have "labelled [''P/N'', ''PN'', ''PART'', ''PART NO'', ''PART NUMBER'', ''ALT'', ''ALTERNATE'']
       is_code (c # cs) = Some (cap, r)"
    by (simp add: explicit_at_def)
  then have "length r < length (c # cs)"
    by (rule labelled_shorter)
  then show "(r, c # cs) \<in> measure length" by simp
next
  fix c :: char and cs :: string
  show "(cs, c # cs) \<in> measure length" by simp
qed

text \<open>
  The shapes that the word scan rejects, each tested with \<^verbatim>\<open>re.match\<close>. A final
  \<^verbatim>\<open>$\<close> matches at the end of the text and before a line feed that ends it.
\<close>

definition at_end :: "string \<Rightarrow> bool" where
  "at_end r = (r = [] \<or> r = [CHR 0x0A])"

text \<open>\<^verbatim>\<open>\d{n}\<close> and a single character of a class; both return the text that follows.\<close>

definition digits_n :: "nat \<Rightarrow> string \<Rightarrow> string option" where
  "digits_n n s =
     (if n \<le> length s \<and> list_all is_digit (take n s) then Some (drop n s) else None)"

definition one_of :: "string \<Rightarrow> string \<Rightarrow> string option" where
  "one_of cls s = (case s of [] \<Rightarrow> None | c # r \<Rightarrow> if c \<in> set cls then Some r else None)"

text \<open>
  \<^verbatim>\<open>\d{lo,hi}\<close> where the pattern goes on with something that is no digit: the whole
  digit run has to be taken, and its length has to lie in the range.
\<close>

definition digit_run :: "nat \<Rightarrow> nat \<Rightarrow> string \<Rightarrow> string option" where
  "digit_run lo hi s =
     (let d = takeWhile is_digit s
      in if lo \<le> length d \<and> length d \<le> hi then Some (dropWhile is_digit s) else None)"

text \<open>\<^verbatim>\<open>^\d{3}-\d{3}-\d{4}$\<close>\<close>

definition phone_shape :: "string \<Rightarrow> bool" where
  "phone_shape t =
     (case digits_n 3 t \<bind> one_of ''-'' \<bind> digits_n 3 \<bind> one_of ''-'' \<bind> digits_n 4 of
        Some r \<Rightarrow> at_end r
      | None \<Rightarrow> False)"

text \<open>\<^verbatim>\<open>^\d{1,2}[/-]\d{1,2}[/-]\d{2,4}$\<close>\<close>

definition date_shape :: "string \<Rightarrow> bool" where
  "date_shape t =
     (case digit_run 1 2 t \<bind> one_of ''/-'' \<bind> digit_run 1 2 \<bind> one_of ''/-'' \<bind> digit_run 2 4 of
        Some r \<Rightarrow> at_end r
      | None \<Rightarrow> False)"

text \<open>\<^verbatim>\<open>^N\d\<close>\<close>

definition tail_shape :: "string \<Rightarrow> bool" where
  "tail_shape t = (case t of c # d # _ \<Rightarrow> c = CHR ''N'' \<and> is_digit d | _ \<Rightarrow> False)"

text \<open>\<^verbatim>\<open>^\d+(ST|ND|RD|TH)$\<close>\<close>

definition ordinal_shape :: "string \<Rightarrow> bool" where
  "ordinal_shape t =
     (takeWhile is_digit t \<noteq> [] \<and>
      list_ex (\<lambda>suffix. dropWhile is_digit t = suffix \<or> dropWhile is_digit t = suffix @ [CHR 0x0A])
        [''ST'', ''ND'', ''RD'', ''TH''])"

subsection \<open>The scan\<close>

definition ignore_tokens :: "string list" where
  "ignore_tokens =
     [''QTY'', ''REQ'', ''UM'', ''EA'', ''EACH'', ''DESC'', ''DESCRIPTION'', ''REV'', ''DATE'',
      ''SIGNED'', ''DELIVERED'', ''BY'', ''AND'', ''OR'', ''TO'', ''FROM'', ''SUBJECT'', ''SENT'',
      ''CC'', ''HI'', ''HELLO'', ''REGARDS'', ''THANKS'', ''BOLT'', ''SCREW'', ''WASHER'', ''NUT'',
      ''PIN'', ''RIVET'', ''COLLAR'', ''BUSHING'', ''SEAL'', ''SUPPORT'', ''BEARING'', ''CLAMP'',
      ''SN'', ''S/N'', ''SERIAL'', ''AWB'', ''OUTBOUND'', ''SHIPPING'', ''COMPANY'', ''ACCOUNT'',
      ''USED'', ''NOTES'', ''TRACKING'', ''PHONE'', ''FAX'', ''NEEDED'', ''ASSEMBLY'', ''ASSY'']"

definition header_labels :: "string list" where
  "header_labels =
     [''AIRCRAFT:'', ''REASON:'', ''SUBJECT:'', ''FROM:'', ''TO:'', ''SENT:'', ''ADDRESS:'',
      ''SHIP TO:'']"

text \<open>\<^verbatim>\<open>upper_line.startswith((...))\<close>\<close>

definition is_header :: "string \<Rightarrow> bool" where
  "is_header upper_line = list_ex (startswith upper_line) header_labels"

text \<open>
  \<^verbatim>\<open>int(qty_str)\<close> on a group captured by \<^verbatim>\<open>\d+\<close>. CPython converts a string
  of at most 4300 digits (its default \<^verbatim>\<open>sys.int_info.default_max_str_digits\<close>,
  leading zeros counted) to its decimal value and raises \<^verbatim>\<open>ValueError\<close> on a
  longer one; \<open>None\<close> is the raise. The conversion is modelled on digit strings only,
  which are all that the scanner passes to it.
\<close>

definition max_str_digits :: nat where
  "max_str_digits = 4300"

definition digit_value :: "char \<Rightarrow> int" where
  "digit_value c = int (length (takeWhile (\<lambda>d. d \<noteq> c) ''0123456789''))"

definition decimal_value :: "string \<Rightarrow> int" where
  "decimal_value s = foldl (\<lambda>a c. 10 * a + digit_value c) 0 s"

definition int_of_digits :: "string \<Rightarrow> int option" where
  "int_of_digits s =
     (if s \<noteq> [] \<and> list_all is_digit s \<and> length s \<le> max_str_digits
      then Some (decimal_value s) else None)"

text \<open>\<^verbatim>\<open>line_parts.add(x)\<close> on a set kept as the list of its elements in insertion order.\<close>

definition set_add :: "string list \<Rightarrow> string \<Rightarrow> string list" where
  "set_add xs x = (if x \<in> set xs then xs else xs @ [x])"

text \<open>Part A of the scan of a line: the labelled matches, cleaned, longer than 2.\<close>

definition explicit_parts :: "string \<Rightarrow> string list" where
  "explicit_parts clean_line =
     filter (\<lambda>clean_p. length clean_p > 2)
       (map (\<lambda>p. strip_where (\<lambda>c. c \<in> set ''.,:; '') (upper p)) (findall_explicit clean_line))"

text \<open>Part B: the words of the line, with the tests of the loop in their order.\<close>

definition token_punct :: string where
  "token_punct = ''.,:;()[]'' @ [CHR 0x22]"

definition keep_token :: "string \<Rightarrow> bool" where
  "keep_token t =
     (\<not> length t < 3 \<and> list_ex is_digit t \<and> \<not> phone_shape t \<and> \<not> date_shape t \<and>
      \<not> tail_shape t \<and> \<not> ordinal_shape t \<and> t \<notin> set ignore_tokens)"

definition implicit_parts :: "string \<Rightarrow> string list" where
  "implicit_parts clean_line =
     filter keep_token
       (map (\<lambda>token. strip_where (\<lambda>c. c \<in> set token_punct) (upper token)) (split clean_line))"

definition line_parts :: "string \<Rightarrow> string list" where
  "line_parts clean_line = foldl set_add [] (explicit_parts clean_line @ implicit_parts clean_line)"

text \<open>
  One turn of the loop over the lines. The state is \<^verbatim>\<open>results\<close> and
  \<^verbatim>\<open>current_block_parts\<close>. Python does not fix the order in which
  \<^verbatim>\<open>list(line_parts)\<close> enumerates a set of strings, so the enumeration is the
  parameter \<open>enum\<close>, applied to the elements in insertion order.
\<close>

type_synonym scan_state = "requisition_item list \<times> string list"

definition scan_line :: "(string list \<Rightarrow> string list) \<Rightarrow> scan_state \<Rightarrow> string \<Rightarrow> scan_state" where
  "scan_line enum st line =
     (case st of (results, current_block_parts) \<Rightarrow>
        (let clean_line = strip line
         in if clean_line = [] then st
            else if is_header (upper clean_line) then st
            else case qty_search clean_line of
                   Some qty_str \<Rightarrow>
                     (let found_qty = (case int_of_digits qty_str of Some n \<Rightarrow> n | None \<Rightarrow> 1)
                      in (results @ map (\<lambda>p. \<lparr>part = p, req_qty = found_qty\<rparr>) current_block_parts,
                          []))
                 | None \<Rightarrow> (results, current_block_parts @ enum (line_parts clean_line))))"

text \<open>The flush after the loop: the parts still pending get the quantity 1.\<close>

definition flush :: "scan_state \<Rightarrow> requisition_item list" where
  "flush st = (case st of (results, current_block_parts) \<Rightarrow>
     results @ map (\<lambda>p. \<lparr>part = p, req_qty = 1\<rparr>) current_block_parts)"

definition extract_data_from_text :: "(string list \<Rightarrow> string list) \<Rightarrow> string \<Rightarrow> requisition_item list" where
  "extract_data_from_text enum text = flush (foldl (scan_line enum) ([], []) (splitlines text))"

subsection \<open>What a line does to the scan\<close>

text \<open>
  The quantity that a line determines: none when the line is blank or a header, which
  the loop leaves before the quantity test, or when \<^verbatim>\<open>qty_regex\<close> does not match.
\<close>

definition quantity_of_line :: "string \<Rightarrow> int option" where
  "quantity_of_line line =
     (let clean_line = strip line
      in if clean_line = [] \<or> is_header (upper clean_line) then None
         else (case qty_search clean_line of
                 None \<Rightarrow> None
               | Some qty_str \<Rightarrow>
                   Some (case int_of_digits qty_str of Some n \<Rightarrow> n | None \<Rightarrow> 1)))"

text \<open>The part candidates that a line adds to the pending block when it is scanned for parts.\<close>

definition parts_of_line :: "(string list \<Rightarrow> string list) \<Rightarrow> string \<Rightarrow> string list" where
  "parts_of_line enum line =
     (let clean_line = strip line
      in if clean_line = [] \<or> is_header (upper clean_line) then []
         else enum (line_parts clean_line))"

text \<open>The four shapes that the word scan tests for.\<close>

definition rejected_shape :: "string \<Rightarrow> bool" where
  "rejected_shape t = (phone_shape t \<or> date_shape t \<or> tail_shape t \<or> ordinal_shape t)"

section \<open>Tables (\<^verbatim>\<open>find_column_by_name\<close> and the row loops)\<close>

text \<open>
  A data frame: its column labels, each as the text \<^verbatim>\<open>str(c)\<close>, and its rows, each
  giving the cell under a label (\<^verbatim>\<open>row[label]\<close>). The frames that pandas reads
  have distinct labels. After the first row is promoted to header a label can repeat, and
  then \<^verbatim>\<open>row[label]\<close> is the Series of the cells under it; \<open>series_str\<close> is the text
  that \<^verbatim>\<open>str\<close> gives for such a Series.
\<close>

record frame =
  columns :: "string list"
  rows :: "(string \<Rightarrow> cell) list"
  series_str :: "cell list \<Rightarrow> string"

text \<open>
  \<^verbatim>\<open>cols = {str(c).upper().strip(): c for c in df.columns}\<close>: a later column
  replaces an earlier one under the same key.
\<close>

definition column_map :: "string list \<Rightarrow> (string \<rightharpoonup> string)" where
  "column_map cs = foldl (\<lambda>cols c. cols(strip (upper c) \<mapsto> c)) Map.empty cs"

text \<open>\<^verbatim>\<open>for kw in keywords: if kw in cols: return cols[kw]\<close>, then \<^verbatim>\<open>return None\<close>.\<close>

fun first_keyword :: "(string \<rightharpoonup> string) \<Rightarrow> string list \<Rightarrow> string option" where
  "first_keyword cols [] = None"
| "first_keyword cols (kw # kws) =
     (case cols kw of Some c \<Rightarrow> Some c | None \<Rightarrow> first_keyword cols kws)"

definition find_column_by_name :: "frame \<Rightarrow> string list \<Rightarrow> string option" where
  "find_column_by_name df keywords = first_keyword (column_map (columns df)) keywords"

text \<open>
  The loop \<^verbatim>\<open>for _, row in df.iterrows()\<close>, which both table strategies run:
  \<^verbatim>\<open>p = str(row[part_col]).strip().upper()\<close>, the row kept when \<^verbatim>\<open>p\<close> is neither
  empty nor \<^verbatim>\<open>'NAN'\<close>, and \<^verbatim>\<open>q = int(row[qty_col]) if qty_col else 1\<close> with 1
  when the conversion raises.
\<close>

definition row_qty :: "string option \<Rightarrow> (string \<Rightarrow> cell) \<Rightarrow> int" where
  "row_qty qty_col row =
     (case qty_col of
        None \<Rightarrow> 1
      | Some qc \<Rightarrow> (case as_int (row qc) of Some n \<Rightarrow> n | None \<Rightarrow> 1))"

definition row_items :: "frame \<Rightarrow> string \<Rightarrow> string option \<Rightarrow> requisition_item list" where
  "row_items df part_col qty_col =
     concat (map (\<lambda>row. let p = upper (strip (as_str (row part_col)))
                        in if p \<noteq> [] \<and> p \<noteq> ''NAN''
                           then [\<lparr>part = p, req_qty = row_qty qty_col row\<rparr>] else [])
                 (rows df))"

section \<open>The strategies of \<^verbatim>\<open>extract_data_from_email\<close>\<close>

subsection \<open>Spreadsheet attachments\<close>

text \<open>
  What happens to an attachment between \<^verbatim>\<open>attachment.save\<close> and the end of
  \<^verbatim>\<open>pd.read_excel\<close>: nothing was written and reading raised; the copy was written
  and reading raised; the copy was written and read as a frame.
\<close>

datatype workbook = SaveFailed | ReadFailed | Sheet frame

record attachment =
  name :: string
  content :: workbook

definition excel_part_keywords :: "string list" where
  "excel_part_keywords = [''P/N'', ''PN'', ''PART'', ''PART NUMBER'', ''ITEM'']"

definition excel_qty_keywords :: "string list" where
  "excel_qty_keywords = [''QTY'', ''QUANTITY'', ''REQ'', ''QTY REQ'']"

text \<open>\<^verbatim>\<open>attachment.name.lower().endswith(('.xlsx', '.xls'))\<close>\<close>

definition is_spreadsheet :: "string \<Rightarrow> bool" where
  "is_spreadsheet n = (endswith (lower n) ''.xlsx'' \<or> endswith (lower n) ''.xls'')"

text \<open>
  The loop over the attachments. The state is the set of the file names present in
  \<^verbatim>\<open>TEMP_DIR\<close>: \<^verbatim>\<open>attachment.save\<close> adds the copy, \<^verbatim>\<open>os.remove\<close> takes it
  away. An exception inside the \<^verbatim>\<open>try\<close> is logged and the loop goes on with the
  next attachment. The result is the returned pair when the loop returns, and the files
  left behind.
\<close>

fun attachment_strategy ::
  "string set \<Rightarrow> attachment list \<Rightarrow> (requisition_item list \<times> string) option \<times> string set" where
  "attachment_strategy files [] = (None, files)"
| "attachment_strategy files (a # rest) =
     (if is_spreadsheet (name a) then
        (case content a of
           SaveFailed \<Rightarrow> attachment_strategy files rest
         | ReadFailed \<Rightarrow> attachment_strategy (insert (name a) files) rest
         | Sheet df \<Rightarrow>
             (case find_column_by_name df excel_part_keywords of
                Some part_col \<Rightarrow>
                  (Some (row_items df part_col (find_column_by_name df excel_qty_keywords),
                         ''Excel ('' @ name a @ '')''),
                   insert (name a) files - {name a})
              | None \<Rightarrow> attachment_strategy (insert (name a) files) rest))
      else attachment_strategy files rest)"

subsection \<open>HTML tables\<close>

definition html_part_keywords :: "string list" where
  "html_part_keywords = [''P/N'', ''PN'', ''PART'', ''PART NUMBER'']"

definition html_qty_keywords :: "string list" where
  "html_qty_keywords = [''QTY'', ''QUANTITY'']"

text \<open>\<^verbatim>\<open>df.empty\<close>: no column or no row.\<close>

definition frame_empty :: "frame \<Rightarrow> bool" where
  "frame_empty df = (columns df = [] \<or> rows df = [])"

text \<open>
  The Series that \<^verbatim>\<open>row[label]\<close> is when several columns carry the label:
  \<^verbatim>\<open>str\<close> gives its text, and \<^verbatim>\<open>int\<close> raises on it.
\<close>

definition series_cell :: "frame \<Rightarrow> cell list \<Rightarrow> cell" where
  "series_cell df cells = \<lparr>as_str = series_str df cells, as_int = None, is_na = False\<rparr>"

text \<open>
  \<^verbatim>\<open>df_promoted.columns = df.iloc[0]\<close> and \<^verbatim>\<open>df_promoted[1:]\<close>: the cells of the
  first row become the labels, and the other rows are read under them. Under a new label
  that one column carries a row gives the cell of that column; under a label that
  several columns carry it gives the Series of their cells. (A text that is no label of
  the promoted frame is never looked up.)
\<close>

definition promote_header :: "frame \<Rightarrow> frame" where
  "promote_header df =
     (case rows df of
        [] \<Rightarrow> df
      | first # others \<Rightarrow>
          \<lparr>columns = map (\<lambda>c. as_str (first c)) (columns df),
           rows = map (\<lambda>row label.
                         case filter (\<lambda>c. as_str (first c) = label) (columns df) of
                           [c] \<Rightarrow> row c
                         | cs \<Rightarrow> series_cell df (map row cs))
                      others,
           series_str = series_str df\<rparr>)"

text \<open>The body of the loop over the tables: the items when a part column is found.\<close>

definition html_table :: "frame \<Rightarrow> requisition_item list option" where
  "html_table df0 =
     (let part_col0 = find_column_by_name df0 html_part_keywords;
          qty_col0 = find_column_by_name df0 html_qty_keywords;
          promoted = (part_col0 = None \<and> \<not> frame_empty df0);
          df = (if promoted then promote_header df0 else df0);
          part_col = (if promoted then find_column_by_name df html_part_keywords else part_col0);
          qty_col = (if promoted then find_column_by_name df html_qty_keywords else qty_col0)
      in case part_col of
           Some pc \<Rightarrow> Some (row_items df pc qty_col)
         | None \<Rightarrow> None)"

fun html_tables :: "frame list \<Rightarrow> requisition_item list option" where
  "html_tables [] = None"
| "html_tables (df # dfs) =
     (case html_table df of Some items \<Rightarrow> Some items | None \<Rightarrow> html_tables dfs)"

subsection \<open>The chain\<close>

text \<open>
  A message, with the outcomes of the two library parsers that read its body:
  \<^verbatim>\<open>pd.read_html\<close> (the tables, or \<open>None\<close> when it raises, as it does when the
  body has no table) and \<^verbatim>\<open>BeautifulSoup(...).get_text\<close> (\<open>None\<close> when it raises).
\<close>

record message =
  subject :: string
  body :: string
  has_attachments :: bool
  attachments :: "attachment list"
  read_html :: "frame list option"
  get_text :: "string option"

definition html_strategy :: "message \<Rightarrow> requisition_item list option" where
  "html_strategy m =
     (if body m \<noteq> [] then (case read_html m of None \<Rightarrow> None | Some dfs \<Rightarrow> html_tables dfs)
      else None)"

text \<open>\<^verbatim>\<open>full_text = f"{message.subject}\n{body_text}"\<close>, scanned.\<close>

definition text_strategy :: "(string list \<Rightarrow> string list) \<Rightarrow> message \<Rightarrow> requisition_item list" where
  "text_strategy enum m =
     extract_data_from_text enum
       (subject m @ [CHR 0x0A] @ (case get_text m of Some body_text \<Rightarrow> body_text | None \<Rightarrow> []))"

definition extract_data_from_email ::
  "(string list \<Rightarrow> string list) \<Rightarrow> string set \<Rightarrow> message
     \<Rightarrow> (requisition_item list \<times> string) \<times> string set" where
  "extract_data_from_email enum files m =
     (case (if has_attachments m then attachment_strategy files (attachments m)
            else (None, files)) of
        (Some found, files') \<Rightarrow> (found, files')
      | (None, files') \<Rightarrow>
          (case html_strategy m of
             Some items \<Rightarrow> ((items, ''HTML Table''), files')
           | None \<Rightarrow> ((text_strategy enum m, ''Text Scanner''), files')))"

section \<open>Vocabulary of the properties\<close>

text \<open>
  A part candidate that comes from one of the lines \<open>L\<close>, as a labelled match or as a
  word of the line.
\<close>

definition from_lines :: "string set \<Rightarrow> string \<Rightarrow> bool" where
  "from_lines L p =
     (\<exists>line\<in>L. p \<in> set (explicit_parts (strip line)) \<union> set (implicit_parts (strip line)))"

text \<open>
  An attachment that does not end the attachment loop: its name is no spreadsheet name,
  or saving or reading it failed, or its sheet has no part-number column.
\<close>

definition unsatisfied :: "attachment \<Rightarrow> bool" where
  "unsatisfied a =
     (\<not> is_spreadsheet (name a) \<or>
      (case content a of
         Sheet df \<Rightarrow> find_column_by_name df excel_part_keywords = None
       | _ \<Rightarrow> True))"

text \<open>The key under which \<open>find_column_by_name\<close> files a column label.\<close>

definition column_key :: "string \<Rightarrow> string" where
  "column_key c = strip (upper c)"

section \<open>Example data\<close>

text \<open>A cell holding the integer \<open>n\<close>, a cell holding text that is no integer literal.\<close>

definition int_cell :: "int \<Rightarrow> cell" where
  "int_cell n = \<lparr>as_str = str_int n, as_int = Some n, is_na = False\<rparr>"

definition text_cell :: "string \<Rightarrow> cell" where
  "text_cell s = \<lparr>as_str = s, as_int = None, is_na = False\<rparr>"

text \<open>An inventory row with an integer quantity and no condition column.\<close>

definition stock_row :: "string \<Rightarrow> int \<Rightarrow> inventory_record" where
  "stock_row p n = \<lparr>part_number = p, quantity = Some (int_cell n), condition = None\<rparr>"

text \<open>A cell holding NaN.\<close>

definition nan_cell :: cell where
  "nan_cell = \<lparr>as_str = ''nan'', as_int = None, is_na = True\<rparr>"

text \<open>
  A frame given by its labels and the cells of its rows in column order. The example
  frames print a Series as the text \<^verbatim>\<open>Series\<close>.
\<close>

definition table :: "string list \<Rightarrow> cell list list \<Rightarrow> frame" where
  "table labels cell_rows =
     \<lparr>columns = labels,
      rows = map (\<lambda>cells label. case map_of (zip labels cells) label of
                                   Some c \<Rightarrow> c | None \<Rightarrow> nan_cell) cell_rows,
      series_str = (\<lambda>cells. ''Series'')\<rparr>"

text \<open>
  Sheets with the one row K-7, quantity 2, under different headers; the last has the
  labels 0 and 1 and its header \<^verbatim>\<open>PN\<close>, \<^verbatim>\<open>Req\<close> as its first row.
\<close>

definition part_sheet :: frame where
  "part_sheet =
     table [''Part'', '' pn '', ''Qty''] [[text_cell ''bracket'', text_cell ''k-7'', int_cell 2]]"

definition item_sheet :: frame where
  "item_sheet = table [''Item'', ''Req''] [[text_cell ''k-7'', int_cell 2]]"

definition notes_sheet :: frame where
  "notes_sheet = table [''Description'', ''Notes''] [[text_cell ''k-7'', int_cell 2]]"

definition req_sheet :: frame where
  "req_sheet = table [''PN'', ''Req''] [[text_cell ''k-7'', int_cell 2]]"

definition headless_sheet :: frame where
  "headless_sheet =
     table [''0'', ''1''] [[text_cell ''PN'', text_cell ''Req''], [text_cell ''k-7'', int_cell 2]]"

text \<open>
  A sheet with four rows: K-7 with quantity 2, K-8 with the quantity \<^verbatim>\<open>TBD\<close>, a row
  without part number, and K-9 with quantity 0.
\<close>

definition order_sheet :: frame where
  "order_sheet =
     table [''PN'', ''QTY'']
       [[text_cell ''k-7'', int_cell 2], [text_cell '' k-8 '', text_cell ''TBD''],
        [nan_cell, int_cell 5], [text_cell ''K-9'', int_cell 0]]"

text \<open>
  A table whose first row, promoted to header, repeats the label \<^verbatim>\<open>Qty\<close>: the
  quantity of its row K-7 is then read from a Series.
\<close>

definition repeated_sheet :: frame where
  "repeated_sheet =
     table [''0'', ''1'', ''2'']
       [[text_cell ''PN'', text_cell ''Qty'', text_cell ''Qty''],
        [text_cell ''k-7'', int_cell 5, int_cell 6]]"

text \<open>
  An inventory of three records with the conditions OH, NEW and AR and the stocks 1, 7
  and 2.
\<close>

definition shelf :: "inventory_record list" where
  "shelf =
     [\<lparr>part_number = ''ZZ1'', quantity = Some (int_cell 1), condition = Some (text_cell ''OH'')\<rparr>,
      \<lparr>part_number = ''AB12X9'', quantity = Some (int_cell 7), condition = Some (text_cell ''NEW'')\<rparr>,
      \<lparr>part_number = ''AB12X10'', quantity = Some (int_cell 2), condition = Some (text_cell ''AR'')\<rparr>]"

text \<open>
  A message with the subject \<^verbatim>\<open>C CHECK\<close>, the given attachments and the given outcome
  of \<^verbatim>\<open>pd.read_html\<close>, whose body reads \<^verbatim>\<open>K-9 needed\<close> as text.
\<close>

definition mail :: "attachment list \<Rightarrow> frame list option \<Rightarrow> message" where
  "mail as tables =
     \<lparr>subject = ''C CHECK'', body = ''<p>K-9 needed</p>'', has_attachments = (as \<noteq> []),
      attachments = as, read_html = tables, get_text = Some ''K-9 needed''\<rparr>"

section \<open>Evaluation rules\<close>

lemmas reconcile_defs = reconcile_item_def exact_match_def prefix_match_def matched_record_def
  stock_of_def condition_of_def classify_def str_int_def digits_of.simps
  int_cell_def text_cell_def stock_row_def

section \<open>Reconciliation: the properties\<close>

lemma reconcile_item_missing:
  "exact_match df (part item) = [] \<Longrightarrow> prefix_match df (part item) = [] \<Longrightarrow>
   reconcile_item df item =
     \<lparr>res_part = part item, status = ''MISSING (Unknown Part)'', res_condition = ''N/A'',
      res_req_qty = req_qty item, stock_qty = 0, remaining = 0\<rparr>"
  by (simp add: reconcile_item_def)

lemma reconcile_item_matched:
  "matched_record df (part item) = Some r \<Longrightarrow>
   reconcile_item df item =
     \<lparr>res_part = (if exact_match df (part item) = []
                  then part item @ '' (Matched: '' @ part_number r @ '')'' else part item),
      status = fst (classify (stock_of r) (req_qty item)),
      res_condition = condition_of r,
      res_req_qty = req_qty item, stock_qty = stock_of r,
      remaining = snd (classify (stock_of r) (req_qty item))\<rparr>"
  by (auto simp: reconcile_item_def matched_record_def Let_def split: list.splits prod.splits)

lemma matched_record_None:
  "matched_record df p = None \<longleftrightarrow> exact_match df p = [] \<and> prefix_match df p = []"
  by (auto simp: matched_record_def split: list.splits)

lemma prefix_match_first:
  "\<forall>x\<in>set pre. \<not> startswith (part_number x) p \<Longrightarrow> startswith (part_number r) p \<Longrightarrow>
   prefix_match (pre @ r # post) p = r # prefix_match post p"
  by (induction pre) (auto simp: prefix_match_def)

text \<open>
  Claim C1. Let \<open>r\<close> be the record matched for a requisition item (the first exact
  match, else the first prefix match) and \<open>s\<close> its stock, the integer of its quantity
  cell or 0 when there is none. When \<open>s = 0\<close> the status is OUT OF STOCK and remaining
  is 0. For an item with a requested quantity of at least 1, as the data model has it,
  \<open>s\<close> at least the requested quantity gives IN STOCK with remaining \<open>s\<close> minus the
  requested quantity, which is 0 when the two are equal. When \<open>0 < s\<close> and \<open>s\<close> is
  below the requested quantity the status is LOW STOCK with the count \<open>s\<close> in its label
  and remaining is 0. When no record matches, exactly or by prefix, the status is MISSING,
  the condition N/A, stock and remaining 0. The cases are tested in this order, so for
  any requested quantity IN STOCK is the status when \<open>s\<close> is not 0 and at least the
  requested quantity.
\<close>

theorem status_boundaries:
  "(matched_record df (part item) = Some r \<longrightarrow>
      stock_qty (reconcile_item df item) = stock_of r \<and>
      stock_of r =
        (case quantity r of
           None \<Rightarrow> 0
         | Some c \<Rightarrow> (case as_int c of None \<Rightarrow> 0 | Some n \<Rightarrow> n)) \<and>
      (stock_of r = 0 \<longrightarrow>
         status (reconcile_item df item) = ''OUT OF STOCK'' \<and>
         remaining (reconcile_item df item) = 0) \<and>
      (1 \<le> req_qty item \<and> stock_of r \<ge> req_qty item \<longrightarrow>
         status (reconcile_item df item) = ''IN STOCK'' \<and>
         remaining (reconcile_item df item) = stock_of r - req_qty item) \<and>
      (1 \<le> req_qty item \<and> stock_of r = req_qty item \<longrightarrow>
         status (reconcile_item df item) = ''IN STOCK'' \<and>
         remaining (reconcile_item df item) = 0) \<and>
      (stock_of r \<noteq> 0 \<and> stock_of r \<ge> req_qty item \<longrightarrow>
         status (reconcile_item df item) = ''IN STOCK'' \<and>
         remaining (reconcile_item df item) = stock_of r - req_qty item) \<and>
      (0 < stock_of r \<and> stock_of r < req_qty item \<longrightarrow>
         status (reconcile_item df item) = ''LOW STOCK (Have '' @ str_int (stock_of r) @ '')'' \<and>
         remaining (reconcile_item df item) = 0)) \<and>
   (exact_match df (part item) = [] \<and> prefix_match df (part item) = [] \<longrightarrow>
      status (reconcile_item df item) = ''MISSING (Unknown Part)'' \<and>
      res_condition (reconcile_item df item) = ''N/A'' \<and>
      stock_qty (reconcile_item df item) = 0 \<and>
      remaining (reconcile_item df item) = 0)"
  by (auto simp: reconcile_item_matched reconcile_item_missing classify_def stock_of_def)

text \<open>
  The cases at concrete inventories: 5 in stock for 3 requested, 3 for 3, 4 for 10, 0 for
  10, and a part the inventory does not hold.
\<close>

theorem status_boundaries_witness:
  "status (reconcile_item [stock_row ''AB-100'' 5] \<lparr>part = ''AB-100'', req_qty = 3\<rparr>) = ''IN STOCK'' \<and>
   remaining (reconcile_item [stock_row ''AB-100'' 5] \<lparr>part = ''AB-100'', req_qty = 3\<rparr>) = 2 \<and>
   status (reconcile_item [stock_row ''AB-100'' 3] \<lparr>part = ''AB-100'', req_qty = 3\<rparr>) = ''IN STOCK'' \<and>
   remaining (reconcile_item [stock_row ''AB-100'' 3] \<lparr>part = ''AB-100'', req_qty = 3\<rparr>) = 0 \<and>
   status (reconcile_item [stock_row ''XY-200'' 4] \<lparr>part = ''XY-200'', req_qty = 10\<rparr>)
     = ''LOW STOCK (Have 4)'' \<and>
   remaining (reconcile_item [stock_row ''XY-200'' 4] \<lparr>part = ''XY-200'', req_qty = 10\<rparr>) = 0 \<and>
   status (reconcile_item [stock_row ''XY-200'' 0] \<lparr>part = ''XY-200'', req_qty = 10\<rparr>)
     = ''OUT OF STOCK'' \<and>
   remaining (reconcile_item [stock_row ''XY-200'' 0] \<lparr>part = ''XY-200'', req_qty = 10\<rparr>) = 0 \<and>
   status (reconcile_item [stock_row ''XY-200'' 4] \<lparr>part = ''Q7'', req_qty = 1\<rparr>)
     = ''MISSING (Unknown Part)'' \<and>
   res_condition (reconcile_item [stock_row ''XY-200'' 4] \<lparr>part = ''Q7'', req_qty = 1\<rparr>) = ''N/A''"
proof -
  have m1: "matched_record [stock_row ''AB-100'' 5] (part \<lparr>part = ''AB-100'', req_qty = 3\<rparr>)
            = Some (stock_row ''AB-100'' 5)"
    by (simp add: reconcile_defs)
  have m2: "matched_record [stock_row ''XY-200'' 4] (part \<lparr>part = ''XY-200'', req_qty = 10\<rparr>)
            = Some (stock_row ''XY-200'' 4)"
    by (simp add: reconcile_defs)
  have m3: "matched_record [stock_row ''XY-200'' 0] (part \<lparr>part = ''XY-200'', req_qty = 10\<rparr>)
            = Some (stock_row ''XY-200'' 0)"
    by (simp add: reconcile_defs)
  have m4: "exact_match [stock_row ''XY-200'' 4] (part \<lparr>part = ''Q7'', req_qty = 1\<rparr>) = [] \<and>
            prefix_match [stock_row ''XY-200'' 4] (part \<lparr>part = ''Q7'', req_qty = 1\<rparr>) = []"
    by (simp add: reconcile_defs startswith_def)
  have m5: "matched_record [stock_row ''AB-100'' 3] (part \<lparr>part = ''AB-100'', req_qty = 3\<rparr>)
            = Some (stock_row ''AB-100'' 3)"
    by (simp add: reconcile_defs)
  have s: "stock_of (stock_row ''AB-100'' 5) = 5" "stock_of (stock_row ''XY-200'' 4) = 4"
    "stock_of (stock_row ''XY-200'' 0) = 0" "stock_of (stock_row ''AB-100'' 3) = 3"
    "str_int 4 = ''4''"
    by (simp_all add: reconcile_defs)
  show ?thesis
    using status_boundaries [of "[stock_row ''AB-100'' 5]" "\<lparr>part = ''AB-100'', req_qty = 3\<rparr>"
        "stock_row ''AB-100'' 5"]
      status_boundaries [of "[stock_row ''AB-100'' 3]" "\<lparr>part = ''AB-100'', req_qty = 3\<rparr>"
        "stock_row ''AB-100'' 3"]
      status_boundaries [of "[stock_row ''XY-200'' 4]" "\<lparr>part = ''XY-200'', req_qty = 10\<rparr>"
        "stock_row ''XY-200'' 4"]
      status_boundaries [of "[stock_row ''XY-200'' 0]" "\<lparr>part = ''XY-200'', req_qty = 10\<rparr>"
        "stock_row ''XY-200'' 0"]
      status_boundaries [of "[stock_row ''XY-200'' 4]" "\<lparr>part = ''Q7'', req_qty = 1\<rparr>"]
      m1 m2 m3 m4 m5 s
    by simp
qed

text \<open>
  Claim C3. When no record equals the item's part and \<open>r\<close> is the first record in
  load order whose part number starts with it, the result shows the part as
  \<^verbatim>\<open><requested> (Matched: <actual>)\<close> with the part number of \<open>r\<close>; its stock is
  the integer of the quantity cell of \<open>r\<close> (0 when \<open>r\<close> has none or \<^verbatim>\<open>int\<close> raises
  on it); its condition is the text of the condition cell of \<open>r\<close> (N/A when \<open>r\<close> has
  none or it is NA); and its status is the one of that stock against the requested
  quantity.
\<close>

theorem prefix_fallback:
  assumes "exact_match df (part item) = []"
    and "df = pre @ r # post"
    and "\<forall>x\<in>set pre. \<not> startswith (part_number x) (part item)"
    and "startswith (part_number r) (part item)"
  shows "res_part (reconcile_item df item) = part item @ '' (Matched: '' @ part_number r @ '')'' \<and>
         stock_qty (reconcile_item df item) =
           (case quantity r of
              None \<Rightarrow> 0
            | Some c \<Rightarrow> (case as_int c of None \<Rightarrow> 0 | Some n \<Rightarrow> n)) \<and>
         res_condition (reconcile_item df item) =
           (case condition r of
              None \<Rightarrow> ''N/A''
            | Some v \<Rightarrow> if is_na v then ''N/A'' else as_str v) \<and>
         status (reconcile_item df item) =
           (if stock_qty (reconcile_item df item) = 0 then ''OUT OF STOCK''
            else if stock_qty (reconcile_item df item) \<ge> req_qty item then ''IN STOCK''
            else ''LOW STOCK (Have '' @ str_int (stock_qty (reconcile_item df item)) @ '')'')"
proof -
  have "prefix_match df (part item) = r # prefix_match post (part item)"
    using assms by (simp add: prefix_match_first)
  with assms(1) have "matched_record df (part item) = Some r"
    by (simp add: matched_record_def)
  with assms(1) show ?thesis
    by (simp add: reconcile_item_matched stock_of_def condition_of_def classify_def)
qed

text \<open>
  The part AB12 against the inventory ZZ1 (condition OH, stock 1), AB12X9 (NEW, 7),
  AB12X10 (AR, 2): the result shows \<^verbatim>\<open>AB12 (Matched: AB12X9)\<close> and carries the stock
  7 and the condition NEW of AB12X9.
\<close>

theorem prefix_fallback_witness:
  "res_part (reconcile_item shelf \<lparr>part = ''AB12'', req_qty = 3\<rparr>) = ''AB12 (Matched: AB12X9)'' \<and>
   stock_qty (reconcile_item shelf \<lparr>part = ''AB12'', req_qty = 3\<rparr>) = 7 \<and>
   res_condition (reconcile_item shelf \<lparr>part = ''AB12'', req_qty = 3\<rparr>) = ''NEW'' \<and>
   status (reconcile_item shelf \<lparr>part = ''AB12'', req_qty = 3\<rparr>) = ''IN STOCK''"
proof -
  let ?item = "\<lparr>part = ''AB12'', req_qty = 3\<rparr>"
  let ?zz = "\<lparr>part_number = ''ZZ1'', quantity = Some (int_cell 1),
              condition = Some (text_cell ''OH'')\<rparr>"
  let ?r = "\<lparr>part_number = ''AB12X9'', quantity = Some (int_cell 7),
             condition = Some (text_cell ''NEW'')\<rparr>"
  let ?x = "\<lparr>part_number = ''AB12X10'', quantity = Some (int_cell 2),
             condition = Some (text_cell ''AR'')\<rparr>"
  have h1: "exact_match shelf (part ?item) = []"
    by (simp add: shelf_def reconcile_defs)
  have h2: "shelf = [?zz] @ ?r # [?x]"
    by (simp add: shelf_def)
  have h3: "\<forall>x\<in>set [?zz]. \<not> startswith (part_number x) (part ?item)"
    by (simp add: startswith_def)
  have h4: "startswith (part_number ?r) (part ?item)"
    by (simp add: startswith_def)
  show ?thesis
    using prefix_fallback [OF h1 h2 h3 h4] by (simp add: int_cell_def text_cell_def)
qed

text \<open>
  Claim C9. The remaining field of a result is never negative, for one item and for the
  whole result list. When the stock of the matched record is below the requested
  quantity remaining is 0, never the negative difference; and in the case that the
  specification calls insufficient stock and names LOW STOCK, a stock that is not 0 and
  below the requested quantity, the status is LOW STOCK with the stock on hand in its
  label.
\<close>

theorem remaining_nonneg:
  "0 \<le> remaining (reconcile_item df item) \<and>
   (\<forall>res \<in> set (reconcile df items). 0 \<le> remaining res) \<and>
   (matched_record df (part item) = Some r \<and> stock_of r < req_qty item \<longrightarrow>
      remaining (reconcile_item df item) = 0) \<and>
   (matched_record df (part item) = Some r \<and> stock_of r \<noteq> 0 \<and> stock_of r < req_qty item \<longrightarrow>
      status (reconcile_item df item) = ''LOW STOCK (Have '' @ str_int (stock_of r) @ '')'')"
proof -
  have nn: "0 \<le> remaining (reconcile_item d i)" for d i
  proof (cases "matched_record d (part i)")
    case None
    then show ?thesis by (simp add: matched_record_None reconcile_item_missing)
  next
    case (Some a)
    then show ?thesis by (simp add: reconcile_item_matched classify_def)
  qed
  then show ?thesis
    by (auto simp: reconcile_def reconcile_item_matched classify_def)
qed

text \<open>Two on hand for five requested: LOW STOCK (Have 2), remaining 0.\<close>

theorem remaining_nonneg_witness:
  "0 \<le> remaining (reconcile_item [stock_row ''K-7'' 2] \<lparr>part = ''K-7'', req_qty = 5\<rparr>) \<and>
   remaining (reconcile_item [stock_row ''K-7'' 2] \<lparr>part = ''K-7'', req_qty = 5\<rparr>) = 0 \<and>
   status (reconcile_item [stock_row ''K-7'' 2] \<lparr>part = ''K-7'', req_qty = 5\<rparr>)
     = ''LOW STOCK (Have 2)''"
proof -
  have m: "matched_record [stock_row ''K-7'' 2] (part \<lparr>part = ''K-7'', req_qty = 5\<rparr>)
           = Some (stock_row ''K-7'' 2)"
    by (simp add: reconcile_defs)
  have s: "stock_of (stock_row ''K-7'' 2) = 2" "str_int 2 = ''2''"
    by (simp_all add: reconcile_defs)
  show ?thesis
    using remaining_nonneg [of "[stock_row ''K-7'' 2]" "\<lparr>part = ''K-7'', req_qty = 5\<rparr>" "[]"
        "stock_row ''K-7'' 2"] m s
    by simp
qed

text \<open>
  Claim C10. When the matched record has a quantity cell on which \<^verbatim>\<open>int\<close> raises,
  the result has stock 0, status OUT OF STOCK (so not MISSING) and remaining 0, and its
  condition is the record's, with N/A when the record has none or it is NA.
\<close>

theorem unparsable_stock:
  assumes "matched_record df (part item) = Some r"
    and "quantity r = Some c"
    and "as_int c = None"
  shows "stock_qty (reconcile_item df item) = 0 \<and>
         status (reconcile_item df item) = ''OUT OF STOCK'' \<and>
         remaining (reconcile_item df item) = 0 \<and>
         status (reconcile_item df item) \<noteq> ''MISSING (Unknown Part)'' \<and>
         res_condition (reconcile_item df item) =
           (case condition r of None \<Rightarrow> ''N/A''
            | Some v \<Rightarrow> if is_na v then ''N/A'' else as_str v)"
  using assms by (simp add: reconcile_item_matched classify_def stock_of_def condition_of_def)

text \<open>A record whose quantity cell reads \<^verbatim>\<open>TBD\<close> and whose condition is \<^verbatim>\<open>NEW\<close>.\<close>

theorem unparsable_stock_witness:
  "stock_qty (reconcile_item
     [\<lparr>part_number = ''K-7'', quantity = Some (text_cell ''TBD''),
       condition = Some (text_cell ''NEW'')\<rparr>] \<lparr>part = ''K-7'', req_qty = 5\<rparr>) = 0 \<and>
   status (reconcile_item
     [\<lparr>part_number = ''K-7'', quantity = Some (text_cell ''TBD''),
       condition = Some (text_cell ''NEW'')\<rparr>] \<lparr>part = ''K-7'', req_qty = 5\<rparr>) = ''OUT OF STOCK'' \<and>
   res_condition (reconcile_item
     [\<lparr>part_number = ''K-7'', quantity = Some (text_cell ''TBD''),
       condition = Some (text_cell ''NEW'')\<rparr>] \<lparr>part = ''K-7'', req_qty = 5\<rparr>) = ''NEW''"
proof -
  let ?r = "\<lparr>part_number = ''K-7'', quantity = Some (text_cell ''TBD''),
             condition = Some (text_cell ''NEW'')\<rparr>"
  have h1: "matched_record [?r] (part \<lparr>part = ''K-7'', req_qty = 5\<rparr>) = Some ?r"
    by (simp add: reconcile_defs)
  have h2: "quantity ?r = Some (text_cell ''TBD'')"
    by simp
  have h3: "as_int (text_cell ''TBD'') = None"
    by (simp add: text_cell_def)
  show ?thesis
    using unparsable_stock [OF h1 h2 h3] by (simp add: text_cell_def)
qed

section \<open>The text scanner: the properties\<close>

lemma scan_line_quantity:
  "quantity_of_line line = Some q \<Longrightarrow>
   scan_line enum (results, pending) line =
     (results @ map (\<lambda>p. \<lparr>part = p, req_qty = q\<rparr>) pending, [])"
  by (auto simp: quantity_of_line_def scan_line_def Let_def split: if_splits option.splits)

lemma scan_line_parts:
  "quantity_of_line line = None \<Longrightarrow>
   scan_line enum (results, pending) line = (results, pending @ parts_of_line enum line)"
  by (auto simp: quantity_of_line_def parts_of_line_def scan_line_def Let_def
      split: if_splits option.splits)

lemma scan_block:
  "\<forall>l\<in>set ls. quantity_of_line l = None \<Longrightarrow>
   foldl (scan_line enum) (results, pending) ls =
     (results, pending @ concat (map (parts_of_line enum) ls))"
  by (induction ls arbitrary: pending) (simp_all add: scan_line_parts)

text \<open>
  What \<^verbatim>\<open>qty_regex\<close> captures is a non-empty string of digits. The quantity of a
  quantity line is its decimal value when it has at most 4300 digits, and the default 1
  of the \<^verbatim>\<open>except\<close> branch when it is longer.
\<close>

lemma sep_then_capture: "sep_then C t = Some (cap, r) \<Longrightarrow> cap \<noteq> [] \<and> list_all C cap"
  by (auto simp: sep_then_def Let_def list_all_iff split: if_splits dest: set_takeWhileD)

lemma labelled_capture: "labelled ls C s = Some (cap, r) \<Longrightarrow> cap \<noteq> [] \<and> list_all C cap"
proof (induction ls)
  case Nil
  then show ?case by simp
next
  case (Cons l ls)
  show ?case
  proof (cases "imatch l s \<bind> sep_then C")
    case None
    with Cons show ?thesis by simp
  next
    case (Some m)
    with Cons.prems have "m = (cap, r)" by simp
    with Some obtain t where "sep_then C t = Some (cap, r)"
      by (auto split: bind_splits)
    then show ?thesis by (rule sep_then_capture)
  qed
qed

lemma qty_at_digits: "qty_at s = Some d \<Longrightarrow> d \<noteq> [] \<and> list_all is_digit d"
proof (cases "labelled [''QTY'', ''QUANTITY'', ''COUNT''] is_digit s")
  case None
  assume "qty_at s = Some d"
  with None have "d = takeWhile is_digit s" "d \<noteq> []"
    by (auto simp: qty_at_def Let_def split: if_splits)
  then show ?thesis
    by (auto simp: list_all_iff dest: set_takeWhileD)
next
  case (Some m)
  assume "qty_at s = Some d"
  with Some obtain r where "m = (d, r)"
    by (cases m) (simp add: qty_at_def)
  with Some show ?thesis
    using labelled_capture by blast
qed

lemma qty_search_digits: "qty_search s = Some d \<Longrightarrow> d \<noteq> [] \<and> list_all is_digit d"
  by (induction s) (auto split: option.splits dest: qty_at_digits)

lemma quantity_of_line_value:
  assumes "quantity_of_line line = Some q"
  shows "\<exists>d. qty_search (strip line) = Some d \<and> d \<noteq> [] \<and> list_all is_digit d \<and>
             q = (if length d \<le> 4300 then decimal_value d else 1)"
proof -
  from assms obtain d where d: "qty_search (strip line) = Some d"
    and q: "q = (case int_of_digits d of Some n \<Rightarrow> n | None \<Rightarrow> 1)"
    by (auto simp: quantity_of_line_def Let_def split: if_splits option.splits)
  from qty_search_digits [OF d] have dd: "d \<noteq> []" "list_all is_digit d"
    by simp_all
  with q have "q = (if length d \<le> 4300 then decimal_value d else 1)"
    by (simp add: int_of_digits_def max_str_digits_def)
  with d dd show ?thesis by blast
qed

text \<open>The results already emitted stay in front, whatever follows.\<close>

lemma scan_line_results:
  "scan_line enum (results, pending) line =
     (results @ fst (scan_line enum ([], pending) line), snd (scan_line enum ([], pending) line))"
  by (cases "quantity_of_line line") (simp_all add: scan_line_parts scan_line_quantity)

lemma scan_results:
  "foldl (scan_line enum) (results, pending) ls =
     (results @ fst (foldl (scan_line enum) ([], pending) ls),
      snd (foldl (scan_line enum) ([], pending) ls))"
proof (induction ls arbitrary: results pending)
  case Nil
  show ?case by simp
next
  case (Cons l ls)
  obtain r p where st: "scan_line enum ([], pending) l = (r, p)"
    by (cases "scan_line enum ([], pending) l")
  then have "scan_line enum (results, pending) l = (results @ r, p)"
    using scan_line_results [of enum results pending l] by simp
  with st show ?case
    using Cons.IH [of "results @ r" p] Cons.IH [of r p] by simp
qed

text \<open>After a quantity line nothing is pending, as at the start of the text.\<close>

lemma scan_pending_empty:
  assumes "before = [] \<or> quantity_of_line (last before) \<noteq> None"
  shows "snd (foldl (scan_line enum) ([], []) before) = []"
proof (cases "before = []")
  case True
  then show ?thesis by simp
next
  case False
  with assms obtain q where q: "quantity_of_line (last before) = Some q" by auto
  obtain r p where st: "foldl (scan_line enum) ([], []) (butlast before) = (r, p)"
    by (cases "foldl (scan_line enum) ([], []) (butlast before)")
  from False have "before = butlast before @ [last before]" by simp
  then have "foldl (scan_line enum) ([], []) before =
             scan_line enum (foldl (scan_line enum) ([], []) (butlast before)) (last before)"
    by (metis foldl_Cons foldl_Nil foldl_append)
  with st q show ?thesis by (simp add: scan_line_quantity)
qed

text \<open>
  Claim C7. Let the lines of the text be \<open>before\<close>, then the block \<open>ls\<close> which holds
  no quantity line, where \<open>before\<close> is empty or ends with a quantity line so that the
  block starts with nothing pending. If the block is followed by a quantity line \<open>ql\<close>
  with value \<open>q\<close> and the lines \<open>after\<close>, then \<^verbatim>\<open>extract_data_from_text\<close> returns
  the items of \<open>before\<close>, then one item with quantity \<open>q\<close> for each part found in
  the block, then the items of \<open>after\<close> scanned from an empty state: the quantity line
  itself adds no part and leaves nothing pending. If the text ends with the block, each
  part found in it is emitted with quantity 1. The value of a quantity line is the decimal
  value of the digits that \<^verbatim>\<open>qty_regex\<close> captures in it, and 1 when \<^verbatim>\<open>int\<close>
  raises on them, which it does for more than 4300 digits.
\<close>

theorem quantity_fan_out:
  assumes "before = [] \<or> quantity_of_line (last before) \<noteq> None"
    and "\<forall>l\<in>set ls. quantity_of_line l = None"
  shows "(splitlines text = before @ ls @ ql # after \<and> quantity_of_line ql = Some q \<longrightarrow>
            extract_data_from_text enum text =
              fst (foldl (scan_line enum) ([], []) before) @
              map (\<lambda>p. \<lparr>part = p, req_qty = q\<rparr>) (concat (map (parts_of_line enum) ls)) @
              flush (foldl (scan_line enum) ([], []) after)) \<and>
         (splitlines text = before @ ls \<longrightarrow>
            extract_data_from_text enum text =
              fst (foldl (scan_line enum) ([], []) before) @
              map (\<lambda>p. \<lparr>part = p, req_qty = 1\<rparr>) (concat (map (parts_of_line enum) ls))) \<and>
         (quantity_of_line ql = Some q \<longrightarrow>
            (\<exists>d. qty_search (strip ql) = Some d \<and> d \<noteq> [] \<and> list_all is_digit d \<and>
                 q = (if length d \<le> 4300 then decimal_value d else 1)))"
proof -
  obtain r where b: "foldl (scan_line enum) ([], []) before = (r, [])"
    using scan_pending_empty [OF assms(1), of enum]
    by (cases "foldl (scan_line enum) ([], []) before") simp
  have blk: "foldl (scan_line enum) ([], []) (before @ ls) =
             (r, concat (map (parts_of_line enum) ls))"
    using assms(2) by (simp add: b scan_block)
  have one: "extract_data_from_text enum text =
              fst (foldl (scan_line enum) ([], []) before) @
              map (\<lambda>p. \<lparr>part = p, req_qty = q\<rparr>) (concat (map (parts_of_line enum) ls)) @
              flush (foldl (scan_line enum) ([], []) after)"
    if "splitlines text = before @ ls @ ql # after" "quantity_of_line ql = Some q"
  proof -
    let ?out = "r @ map (\<lambda>p. \<lparr>part = p, req_qty = q\<rparr>) (concat (map (parts_of_line enum) ls))"
    have "foldl (scan_line enum) ([], []) (splitlines text) =
          foldl (scan_line enum) (scan_line enum (r, concat (map (parts_of_line enum) ls)) ql) after"
      using that(1) blk by (simp add: foldl_append [symmetric] del: foldl_append)
        (simp add: blk)
    also have "\<dots> = foldl (scan_line enum) (?out, []) after"
      using that(2) by (simp add: scan_line_quantity)
    also have "\<dots> = (?out @ fst (foldl (scan_line enum) ([], []) after),
                      snd (foldl (scan_line enum) ([], []) after))"
      by (rule scan_results)
    finally show ?thesis
      by (simp add: extract_data_from_text_def flush_def b split: prod.splits)
  qed
  have two: "extract_data_from_text enum text =
              fst (foldl (scan_line enum) ([], []) before) @
              map (\<lambda>p. \<lparr>part = p, req_qty = 1\<rparr>) (concat (map (parts_of_line enum) ls))"
    if "splitlines text = before @ ls"
    using that blk by (simp add: extract_data_from_text_def flush_def b)
  from one two quantity_of_line_value [of ql q] show ?thesis by blast
qed

text \<open>
  The text \<^verbatim>\<open>K0K\<close>, \<^verbatim>\<open>qty: 2\<close>, \<^verbatim>\<open>A1B B2C\<close>, \<^verbatim>\<open>C3D\<close>, \<^verbatim>\<open>5 ea\<close>,
  \<^verbatim>\<open>ZZ9\<close>, one per line: the block of the third and fourth line gets the quantity 5
  of the line after it, the part before it keeps its own quantity 2, and the part after
  it is flushed with 1. The text of the block alone gives each of its parts the
  quantity 1.
\<close>

theorem quantity_fan_out_witness:
  "extract_data_from_text (\<lambda>xs. xs)
     (''K0K'' @ [CHR 0x0A] @ ''qty: 2'' @ [CHR 0x0A] @ ''A1B B2C'' @ [CHR 0x0A] @ ''C3D'' @
      [CHR 0x0A] @ ''5 ea'' @ [CHR 0x0A] @ ''ZZ9'')
     = [\<lparr>part = ''K0K'', req_qty = 2\<rparr>, \<lparr>part = ''A1B'', req_qty = 5\<rparr>,
        \<lparr>part = ''B2C'', req_qty = 5\<rparr>, \<lparr>part = ''C3D'', req_qty = 5\<rparr>,
        \<lparr>part = ''ZZ9'', req_qty = 1\<rparr>] \<and>
   extract_data_from_text (\<lambda>xs. xs) (''A1B B2C'' @ [CHR 0x0A] @ ''C3D'')
     = [\<lparr>part = ''A1B'', req_qty = 1\<rparr>, \<lparr>part = ''B2C'', req_qty = 1\<rparr>,
        \<lparr>part = ''C3D'', req_qty = 1\<rparr>]"
proof -
  let ?t1 = "''K0K'' @ [CHR 0x0A] @ ''qty: 2'' @ [CHR 0x0A] @ ''A1B B2C'' @ [CHR 0x0A] @ ''C3D'' @
             [CHR 0x0A] @ ''5 ea'' @ [CHR 0x0A] @ ''ZZ9''"
  let ?t2 = "''A1B B2C'' @ [CHR 0x0A] @ ''C3D''"
  have b1: "[''K0K'', ''qty: 2''] = [] \<or> quantity_of_line (last [''K0K'', ''qty: 2'']) \<noteq> None"
    by code_simp
  have b2: "([] :: string list) = [] \<or> quantity_of_line (last []) \<noteq> None"
    by simp
  have h: "\<forall>l\<in>set [''A1B B2C'', ''C3D'']. quantity_of_line l = None"
    by code_simp
  have l1: "splitlines ?t1 = [''K0K'', ''qty: 2''] @ [''A1B B2C'', ''C3D''] @ ''5 ea'' # [''ZZ9'']"
    by code_simp
  have l2: "splitlines ?t2 = [] @ [''A1B B2C'', ''C3D'']"
    by code_simp
  have q: "quantity_of_line ''5 ea'' = Some 5"
    by code_simp
  have p: "concat (map (parts_of_line (\<lambda>xs. xs)) [''A1B B2C'', ''C3D''])
           = [''A1B'', ''B2C'', ''C3D'']"
    by code_simp
  have f: "fst (foldl (scan_line (\<lambda>xs. xs)) ([], []) [''K0K'', ''qty: 2''])
           = [\<lparr>part = ''K0K'', req_qty = 2\<rparr>]"
    "flush (foldl (scan_line (\<lambda>xs. xs)) ([], []) [''ZZ9'']) = [\<lparr>part = ''ZZ9'', req_qty = 1\<rparr>]"
    by code_simp+
  have c1: "extract_data_from_text (\<lambda>xs. xs) ?t1 =
              fst (foldl (scan_line (\<lambda>xs. xs)) ([], []) [''K0K'', ''qty: 2'']) @
              map (\<lambda>p. \<lparr>part = p, req_qty = 5\<rparr>)
                (concat (map (parts_of_line (\<lambda>xs. xs)) [''A1B B2C'', ''C3D''])) @
              flush (foldl (scan_line (\<lambda>xs. xs)) ([], []) [''ZZ9''])"
    by (rule quantity_fan_out [OF b1 h, THEN conjunct1, THEN mp, OF conjI [OF l1 q]])
  have c2: "extract_data_from_text (\<lambda>xs. xs) ?t2 =
              fst (foldl (scan_line (\<lambda>xs. xs)) ([], []) []) @
              map (\<lambda>p. \<lparr>part = p, req_qty = 1\<rparr>)
                (concat (map (parts_of_line (\<lambda>xs. xs)) [''A1B B2C'', ''C3D'']))"
    by (rule quantity_fan_out [OF b2 h, THEN conjunct2, THEN conjunct1, THEN mp, OF l2])
  show ?thesis
    unfolding c1 c2 p f by simp
qed

text \<open>A quantity of 4301 digits is beyond what \<^verbatim>\<open>int\<close> converts, and counts as 1.\<close>

lemma long_quantity:
  "quantity_of_line (''QTY: '' @ replicate 4301 (CHR ''7'')) = Some 1"
proof -
  define d where "d = replicate 4301 (CHR ''7'')"
  define l where "l = ''QTY: '' @ d"
  have sp: "strip l = l"
    by (simp add: l_def d_def strip_def strip_where_def is_space_def whitespace_def
        dropWhile_append3)
  have ne: "l \<noteq> []"
    by (simp add: l_def)
  have "labelled [''QTY'', ''QUANTITY'', ''COUNT''] is_digit l = Some (d, [])"
    by (simp add: l_def d_def imatch_def upper_def upper_char_def lowercase_def uppercase_def
        sep_then_def is_sep_def is_space_def whitespace_def is_digit_def Let_def)
  then have "qty_at l = Some d"
    by (simp add: qty_at_def)
  with ne have qs: "qty_search l = Some d"
    by (cases l) simp_all
  have i: "int_of_digits d = None"
    by (simp add: d_def int_of_digits_def max_str_digits_def)
  have hd: "\<not> is_header (upper l)"
    by (simp add: l_def is_header_def header_labels_def startswith_def upper_def upper_char_def
        lowercase_def uppercase_def)
  have "quantity_of_line l = Some 1"
    by (simp add: quantity_of_line_def sp ne qs i hd)
  then show ?thesis
    by (simp add: l_def d_def)
qed

lemma digit_value_nonneg: "0 \<le> digit_value c"
  by (simp add: digit_value_def)

lemma foldl_digits_nonneg: "0 \<le> a \<Longrightarrow> 0 \<le> foldl (\<lambda>a c. 10 * a + digit_value c) a s"
  by (induction s arbitrary: a) (simp_all add: digit_value_nonneg)

lemma int_of_digits_nonneg: "int_of_digits s = Some n \<Longrightarrow> 0 \<le> n"
  by (auto simp: int_of_digits_def decimal_value_def foldl_digits_nonneg split: if_splits)

lemma quantity_of_line_nonneg: "quantity_of_line l = Some q \<Longrightarrow> 0 \<le> q"
  by (auto simp: quantity_of_line_def Let_def int_of_digits_nonneg split: if_splits option.splits)

lemma implicit_not_rejected: "t \<in> set (implicit_parts l) \<Longrightarrow> \<not> rejected_shape t"
  by (auto simp: implicit_parts_def keep_token_def rejected_shape_def)

lemma set_foldl_set_add: "set (foldl set_add acc xs) = set acc \<union> set xs"
  by (induction xs arbitrary: acc) (auto simp: set_add_def)

lemma set_line_parts: "set (line_parts l) = set (explicit_parts l) \<union> set (implicit_parts l)"
  by (simp add: line_parts_def set_foldl_set_add)

lemma parts_of_line_origin:
  assumes "\<And>xs. set (enum xs) \<subseteq> set xs" and "line \<in> L" and "p \<in> set (parts_of_line enum line)"
  shows "from_lines L p"
proof -
  from assms(3) have "p \<in> set (enum (line_parts (strip line)))"
    by (auto simp: parts_of_line_def Let_def split: if_splits)
  with assms(1) have "p \<in> set (line_parts (strip line))" by blast
  with assms(2) show ?thesis
    by (auto simp: from_lines_def set_line_parts)
qed

lemma scan_line_origin:
  assumes enum: "\<And>xs. set (enum xs) \<subseteq> set xs" and "line \<in> L"
    and "\<forall>i\<in>set results. from_lines L (part i)" and "\<forall>p\<in>set pending. from_lines L p"
    and "scan_line enum (results, pending) line = (results', pending')"
  shows "(\<forall>i\<in>set results'. from_lines L (part i)) \<and> (\<forall>p\<in>set pending'. from_lines L p)"
proof (cases "quantity_of_line line")
  case None
  with assms(3-5) parts_of_line_origin [OF enum assms(2)] show ?thesis
    by (auto simp: scan_line_parts)
next
  case (Some q)
  with assms(3-5) show ?thesis
    by (auto simp: scan_line_quantity)
qed

lemma scan_origin:
  assumes enum: "\<And>xs. set (enum xs) \<subseteq> set xs"
  shows "set ls \<subseteq> L \<Longrightarrow> \<forall>i\<in>set results. from_lines L (part i) \<Longrightarrow>
         \<forall>p\<in>set pending. from_lines L p \<Longrightarrow>
         \<forall>i\<in>set (flush (foldl (scan_line enum) (results, pending) ls)). from_lines L (part i)"
proof (induction ls arbitrary: results pending)
  case Nil
  then show ?case by (auto simp: flush_def)
next
  case (Cons l ls)
  obtain r' p' where st: "scan_line enum (results, pending) l = (r', p')"
    by (cases "scan_line enum (results, pending) l")
  from Cons.prems have "l \<in> L" by simp
  from scan_line_origin [OF enum this Cons.prems(2,3) st]
  have "\<forall>i\<in>set r'. from_lines L (part i)" "\<forall>p\<in>set p'. from_lines L p" by simp_all
  with Cons.prems(1) Cons.IH [of r' p'] st show ?case by simp
qed

text \<open>
  Claim C8, as the code has it. Whatever order the sets of a line's parts are enumerated
  in, a part that the scanner emits and that has the phone, date, tail-number or ordinal
  shape is a labelled match (part A) of one of the lines of the text: the word scan
  (part B) never yields a word of one of these shapes.
\<close>

theorem shape_rejection:
  assumes "\<And>xs. set (enum xs) \<subseteq> set xs"
  shows "(\<forall>item\<in>set (extract_data_from_text enum text).
            rejected_shape (part item) \<longrightarrow>
            (\<exists>line\<in>set (splitlines text). part item \<in> set (explicit_parts (strip line)))) \<and>
         (\<forall>t\<in>set (implicit_parts clean_line). \<not> rejected_shape t)"
proof -
  have "\<forall>i\<in>set (extract_data_from_text enum text). from_lines (set (splitlines text)) (part i)"
    unfolding extract_data_from_text_def
    using scan_origin [OF assms, of "splitlines text" "set (splitlines text)" "[]" "[]"] by simp
  then show ?thesis
    by (auto simp: from_lines_def dest: implicit_not_rejected)
qed

text \<open>
  A line that names a phone number, a date, a tail number and an ordinal among its words
  yields only the part X17; the tail number N1234 after the label \<^verbatim>\<open>PN:\<close> is a
  labelled match of its line.
\<close>

theorem shape_rejection_witness:
  "extract_data_from_text (\<lambda>xs. xs) ''call 555-123-4567 on 04/12/2024 for N1234 the 21ST, x17''
     = [\<lparr>part = ''X17'', req_qty = 1\<rparr>] \<and>
   \<not> rejected_shape ''X17'' \<and>
   rejected_shape ''N1234'' \<and>
   (\<exists>line\<in>set (splitlines ''PN: N1234''). ''N1234'' \<in> set (explicit_parts (strip line)))"
proof -
  have h: "set ((\<lambda>xs. xs) xs) \<subseteq> set xs" for xs :: "string list"
    by simp
  have e: "extract_data_from_text (\<lambda>xs. xs)
             ''call 555-123-4567 on 04/12/2024 for N1234 the 21ST, x17''
           = [\<lparr>part = ''X17'', req_qty = 1\<rparr>]"
    by code_simp
  have n: "extract_data_from_text (\<lambda>xs. xs) ''PN: N1234'' = [\<lparr>part = ''N1234'', req_qty = 1\<rparr>]"
    by code_simp
  have s: "rejected_shape ''N1234''" "\<not> rejected_shape ''X17''"
    by code_simp+
  show ?thesis
    using shape_rejection [of "\<lambda>xs. xs" "''PN: N1234''", OF h] e n s by simp
qed

text \<open>
  Claim C8 as the specification words it fails: after a part label the scanner emits a
  tail number, a phone number, an ordinal and a date written with hyphens.
\<close>

theorem labelled_shape_counterexample:
  "extract_data_from_text (\<lambda>xs. xs) ''PN: N1234'' = [\<lparr>part = ''N1234'', req_qty = 1\<rparr>] \<and>
   tail_shape ''N1234'' \<and>
   extract_data_from_text (\<lambda>xs. xs) ''P/N: 555-123-4567''
     = [\<lparr>part = ''555-123-4567'', req_qty = 1\<rparr>] \<and>
   phone_shape ''555-123-4567'' \<and>
   extract_data_from_text (\<lambda>xs. xs) ''PART 21ST'' = [\<lparr>part = ''21ST'', req_qty = 1\<rparr>] \<and>
   ordinal_shape ''21ST'' \<and>
   extract_data_from_text (\<lambda>xs. xs) ''ALT: 04-12-2024'' = [\<lparr>part = ''04-12-2024'', req_qty = 1\<rparr>] \<and>
   date_shape ''04-12-2024''"
  by code_simp

section \<open>Tables and strategies: the properties\<close>

lemma column_map_snoc: "column_map (cs @ [c]) = (column_map cs)(column_key c \<mapsto> c)"
  by (simp add: column_map_def column_key_def)

lemma column_map_Some: "column_map cs k = Some c \<Longrightarrow> c \<in> set cs \<and> column_key c = k"
proof (induction cs rule: rev_induct)
  case Nil
  then show ?case by (simp add: column_map_def)
next
  case (snoc x xs)
  then show ?case by (auto simp: column_map_snoc split: if_splits)
qed

lemma column_map_None: "column_map cs k = None \<longleftrightarrow> (\<forall>c\<in>set cs. column_key c \<noteq> k)"
proof (induction cs rule: rev_induct)
  case Nil
  then show ?case by (simp add: column_map_def)
next
  case (snoc x xs)
  then show ?case by (auto simp: column_map_snoc)
qed

lemma column_map_last:
  "column_map cs k = Some c \<Longrightarrow> c = last (filter (\<lambda>x. column_key x = k) cs)"
proof (induction cs rule: rev_induct)
  case Nil
  then show ?case by (simp add: column_map_def)
next
  case (snoc x xs)
  then show ?case by (auto simp: column_map_snoc split: if_splits)
qed

lemma first_keyword_Some:
  "first_keyword m kws = Some c \<Longrightarrow>
   \<exists>pre kw post. kws = pre @ kw # post \<and> (\<forall>k\<in>set pre. m k = None) \<and> m kw = Some c"
proof (induction kws)
  case Nil
  then show ?case by simp
next
  case (Cons k kws)
  show ?case
  proof (cases "m k")
    case None
    with Cons.prems have "first_keyword m kws = Some c" by simp
    then obtain pre kw post where
      "kws = pre @ kw # post" "\<forall>k\<in>set pre. m k = None" "m kw = Some c"
      using Cons.IH by blast
    with None have "k # kws = (k # pre) @ kw # post \<and> (\<forall>k\<in>set (k # pre). m k = None) \<and> m kw = Some c"
      by simp
    then show ?thesis by blast
  next
    case (Some a)
    with Cons.prems have "k # kws = [] @ k # kws \<and> (\<forall>k\<in>set []. m k = None) \<and> m k = Some c"
      by simp
    then show ?thesis by blast
  qed
qed

lemma first_keyword_None: "first_keyword m kws = None \<longleftrightarrow> (\<forall>k\<in>set kws. m k = None)"
  by (induction kws) (auto split: option.splits)

text \<open>
  \<open>find_column_by_name\<close> returns the column of the first keyword, in list order,
  that is the key of some column (the last such column when several share the key), and
  nothing exactly when no keyword is the key of a column.
\<close>

lemma first_keyword_wins:
  "(find_column_by_name df keywords = Some c \<longrightarrow>
      (\<exists>pre kw post. keywords = pre @ kw # post \<and>
         (\<forall>k\<in>set pre. \<forall>x\<in>set (columns df). column_key x \<noteq> k) \<and>
         c \<in> set (columns df) \<and> column_key c = kw \<and>
         c = last (filter (\<lambda>x. column_key x = kw) (columns df)))) \<and>
   (find_column_by_name df keywords = None \<longleftrightarrow>
      (\<forall>kw\<in>set keywords. \<forall>x\<in>set (columns df). column_key x \<noteq> kw))"
proof -
  have a: "find_column_by_name df keywords = Some c \<longrightarrow>
      (\<exists>pre kw post. keywords = pre @ kw # post \<and>
         (\<forall>k\<in>set pre. \<forall>x\<in>set (columns df). column_key x \<noteq> k) \<and>
         c \<in> set (columns df) \<and> column_key c = kw \<and>
         c = last (filter (\<lambda>x. column_key x = kw) (columns df)))"
  proof
    assume "find_column_by_name df keywords = Some c"
    then obtain pre kw post where k: "keywords = pre @ kw # post"
        "\<forall>k\<in>set pre. column_map (columns df) k = None" "column_map (columns df) kw = Some c"
      unfolding find_column_by_name_def using first_keyword_Some by blast
    from k(2) have "\<forall>k\<in>set pre. \<forall>x\<in>set (columns df). column_key x \<noteq> k"
      by (simp add: column_map_None)
    with k(1) column_map_Some [OF k(3)] column_map_last [OF k(3)]
    show "\<exists>pre kw post. keywords = pre @ kw # post \<and>
         (\<forall>k\<in>set pre. \<forall>x\<in>set (columns df). column_key x \<noteq> k) \<and>
         c \<in> set (columns df) \<and> column_key c = kw \<and>
         c = last (filter (\<lambda>x. column_key x = kw) (columns df))"
      by blast
  qed
  have b: "find_column_by_name df keywords = None \<longleftrightarrow>
      (\<forall>kw\<in>set keywords. \<forall>x\<in>set (columns df). column_key x \<noteq> kw)"
    by (simp add: find_column_by_name_def first_keyword_None column_map_None)
  from a b show ?thesis by blast
qed

text \<open>
  Promotion: the texts of the first row are the new labels; under a label that one
  column carries the remaining rows give that column's cells, and under a label that
  several columns carry they give a Series, on which \<^verbatim>\<open>int\<close> raises.
\<close>

lemma promote_header_columns:
  "rows df = first # others \<Longrightarrow>
   columns (promote_header df) = map (\<lambda>c. as_str (first c)) (columns df)"
  by (simp add: promote_header_def)

lemma promote_header_unique:
  "rows df = first # others \<Longrightarrow>
   filter (\<lambda>c. as_str (first c) = label) (columns df) = [c] \<Longrightarrow>
   map (\<lambda>row. row label) (rows (promote_header df)) = map (\<lambda>row. row c) others"
  by (simp add: promote_header_def)

lemma promote_header_repeated:
  "rows df = first # others \<Longrightarrow>
   filter (\<lambda>c. as_str (first c) = label) (columns df) = c1 # c2 # cs \<Longrightarrow>
   map (\<lambda>row. row label) (rows (promote_header df)) =
     map (\<lambda>row. series_cell df (map row (c1 # c2 # cs))) others"
  by (simp add: promote_header_def)

lemma promoted_examples:
  "html_table headless_sheet = Some [\<lparr>part = ''K-7'', req_qty = 1\<rparr>] \<and>
   html_table repeated_sheet = Some [\<lparr>part = ''K-7'', req_qty = 1\<rparr>] \<and>
   html_table (table [''0'', ''1''] [[text_cell ''PN'', text_cell ''Qty''],
                                     [text_cell ''k-7'', int_cell 2]])
     = Some [\<lparr>part = ''K-7'', req_qty = 2\<rparr>] \<and>
   html_table (table [''0'', ''1''] [[text_cell ''PN'', text_cell ''PN''],
                                     [text_cell ''k-7'', text_cell ''k-8'']])
     = Some [\<lparr>part = ''SERIES'', req_qty = 1\<rparr>]"
  by code_simp

lemma row_items_rows_aux:
  "concat (map (\<lambda>row. let p = upper (strip (as_str (row part_col)))
                        in if p \<noteq> [] \<and> p \<noteq> ''NAN''
                           then [\<lparr>part = p, req_qty = row_qty qty_col row\<rparr>] else []) rs) =
     map (\<lambda>row. \<lparr>part = upper (strip (as_str (row part_col))),
                  req_qty = (case qty_col of
                               None \<Rightarrow> 1
                             | Some qc \<Rightarrow> (case as_int (row qc) of None \<Rightarrow> 1 | Some n \<Rightarrow> n))\<rparr>)
         (filter (\<lambda>row. upper (strip (as_str (row part_col))) \<noteq> [] \<and>
                         upper (strip (as_str (row part_col))) \<noteq> ''NAN'') rs)"
  by (induction rs) (simp_all add: Let_def row_qty_def)

text \<open>The row loop keeps the order of the rows and reads both cells of an item from one row.\<close>

lemma row_items_rows:
  "row_items df part_col qty_col =
     map (\<lambda>row. \<lparr>part = upper (strip (as_str (row part_col))),
                  req_qty = (case qty_col of
                               None \<Rightarrow> 1
                             | Some qc \<Rightarrow> (case as_int (row qc) of None \<Rightarrow> 1 | Some n \<Rightarrow> n))\<rparr>)
         (filter (\<lambda>row. upper (strip (as_str (row part_col))) \<noteq> [] \<and>
                         upper (strip (as_str (row part_col))) \<noteq> ''NAN'')
                 (rows df))"
  unfolding row_items_def by (rule row_items_rows_aux)

lemma attachment_result_files:
  "fst (attachment_strategy f1 as) = fst (attachment_strategy f2 as)"
  by (induction as arbitrary: f1 f2) (auto split: workbook.splits option.splits)

lemma attachment_skip:
  "\<forall>x\<in>set pre. unsatisfied x \<Longrightarrow>
   fst (attachment_strategy files (pre @ rest)) = fst (attachment_strategy files rest)"
proof (induction pre arbitrary: files)
  case Nil
  then show ?case by simp
next
  case (Cons a pre)
  then have "unsatisfied a" and IH: "\<And>f. fst (attachment_strategy f (pre @ rest)) = fst (attachment_strategy f rest)"
    by simp_all
  then show ?case
    using attachment_result_files [of "insert (name a) files" rest files]
    by (auto simp: unsatisfied_def split: workbook.splits)
qed

lemma attachment_hit:
  "is_spreadsheet (name a) \<Longrightarrow> content a = Sheet df \<Longrightarrow>
   find_column_by_name df excel_part_keywords = Some pc \<Longrightarrow>
   attachment_strategy files (a # rest) =
     (Some (row_items df pc (find_column_by_name df excel_qty_keywords), ''Excel ('' @ name a @ '')''),
      insert (name a) files - {name a})"
  by simp

lemma attachment_none:
  "\<forall>x\<in>set as. unsatisfied x \<Longrightarrow> fst (attachment_strategy files as) = None"
  using attachment_skip [of as files "[]"] by simp

lemma html_tables_first:
  "\<forall>x\<in>set pre. html_table x = None \<Longrightarrow> html_table t = Some items \<Longrightarrow>
   html_tables (pre @ t # post) = Some items"
  by (induction pre) simp_all

lemma html_tables_None: "html_tables dfs = None \<longleftrightarrow> (\<forall>x\<in>set dfs. html_table x = None)"
  by (induction dfs) (auto split: option.splits)

text \<open>What a table strategy returns is the output of the row loop on a frame.\<close>

lemma attachment_items:
  "fst (attachment_strategy files as) = Some (items, label) \<Longrightarrow>
   \<exists>a\<in>set as. \<exists>df pc. content a = Sheet df \<and>
      find_column_by_name df excel_part_keywords = Some pc \<and>
      items = row_items df pc (find_column_by_name df excel_qty_keywords) \<and>
      label = ''Excel ('' @ name a @ '')''"
proof (induction as arbitrary: files)
  case Nil
  then show ?case by simp
next
  case (Cons a as)
  show ?case
  proof (cases "is_spreadsheet (name a) \<and>
      (\<exists>df pc. content a = Sheet df \<and> find_column_by_name df excel_part_keywords = Some pc)")
    case True
    then obtain df pc where "is_spreadsheet (name a)" "content a = Sheet df"
      "find_column_by_name df excel_part_keywords = Some pc" by blast
    with Cons.prems show ?thesis by auto
  next
    case False
    have "fst (attachment_strategy files (a # as)) = fst (attachment_strategy files as)"
    proof (cases "content a")
      case SaveFailed
      then show ?thesis by simp
    next
      case ReadFailed
      then show ?thesis
        using attachment_result_files [of "insert (name a) files" as files] by simp
    next
      case (Sheet df)
      with False show ?thesis
        using attachment_result_files [of "insert (name a) files" as files]
        by (cases "find_column_by_name df excel_part_keywords") auto
    qed
    with Cons.prems Cons.IH [of files] show ?thesis by auto
  qed
qed

lemma html_table_items:
  "html_table df = Some items \<Longrightarrow>
   \<exists>df' pc. (df' = df \<or> df' = promote_header df) \<and>
      find_column_by_name df' html_part_keywords = Some pc \<and>
      items = row_items df' pc (find_column_by_name df' html_qty_keywords)"
  by (auto simp: html_table_def Let_def split: option.splits if_splits)
text \<open>The quantities in \<^verbatim>\<open>results\<close> are quantities of lines already read.\<close>

lemma scan_line_quantities:
  assumes "line \<in> L"
    and "\<forall>i\<in>set results. \<exists>l\<in>L. quantity_of_line l = Some (req_qty i)"
    and "scan_line enum (results, pending) line = (results', pending')"
  shows "\<forall>i\<in>set results'. \<exists>l\<in>L. quantity_of_line l = Some (req_qty i)"
proof (cases "quantity_of_line line")
  case None
  with assms(2,3) show ?thesis by (simp add: scan_line_parts)
next
  case (Some q)
  with assms(3) have r: "results' = results @ map (\<lambda>p. \<lparr>part = p, req_qty = q\<rparr>) pending"
    by (simp add: scan_line_quantity)
  from Some assms(1) have q: "\<exists>l\<in>L. quantity_of_line l = Some q" by blast
  show ?thesis
  proof
    fix i
    assume "i \<in> set results'"
    with r have "i \<in> set results \<or> req_qty i = q" by auto
    with assms(2) q show "\<exists>l\<in>L. quantity_of_line l = Some (req_qty i)" by blast
  qed
qed

lemma scan_quantities:
  "set ls \<subseteq> L \<Longrightarrow> \<forall>i\<in>set results. \<exists>l\<in>L. quantity_of_line l = Some (req_qty i) \<Longrightarrow>
   \<forall>i\<in>set (fst (foldl (scan_line enum) (results, pending) ls)).
      \<exists>l\<in>L. quantity_of_line l = Some (req_qty i)"
proof (induction ls arbitrary: results pending)
  case Nil
  then show ?case by simp
next
  case (Cons l ls)
  obtain r' p' where st: "scan_line enum (results, pending) l = (r', p')"
    by (cases "scan_line enum (results, pending) l")
  from Cons.prems have "l \<in> L" by simp
  from scan_line_quantities [OF this Cons.prems(2) st] Cons.prems(1) Cons.IH [of r' p'] st
  show ?case by simp
qed

lemma text_quantities:
  "\<forall>item\<in>set (extract_data_from_text enum text).
     req_qty item = 1 \<or> (\<exists>l\<in>set (splitlines text). quantity_of_line l = Some (req_qty item))"
proof -
  obtain r p where st: "foldl (scan_line enum) ([], []) (splitlines text) = (r, p)"
    by (cases "foldl (scan_line enum) ([], []) (splitlines text)")
  have "\<forall>i\<in>set r. \<exists>l\<in>set (splitlines text). quantity_of_line l = Some (req_qty i)"
    using scan_quantities [of "splitlines text" "set (splitlines text)" "[]" enum "[]"] st
    by simp
  then show ?thesis
    by (auto simp: extract_data_from_text_def st flush_def)
qed

text \<open>
  Claim C2, as the code has it. A quantity that is missing or cannot be converted becomes
  1, and a quantity that converts is emitted as converted. Every item of the text scan
  carries 1 or the value of a quantity line of the text, which is never negative and can
  be 0; the value of a quantity line is the decimal value of its digits, and 1 when
  \<^verbatim>\<open>int\<close> raises on them. The row loop of the two table strategies emits, in row
  order, one item for each row with a part number, and the quantity of the item is 1
  when no quantity column was resolved or \<^verbatim>\<open>int\<close> raises on the quantity cell of
  that same row, and otherwise the integer that \<^verbatim>\<open>int\<close> returns for that cell,
  whatever its sign. What the attachment strategy and the HTML strategy return is the
  output of this row loop.
\<close>

theorem quantity_defaults:
  "(\<forall>item\<in>set (extract_data_from_text enum text).
      0 \<le> req_qty item \<and>
      (req_qty item = 1 \<or>
       (\<exists>l\<in>set (splitlines text). quantity_of_line l = Some (req_qty item)))) \<and>
   (quantity_of_line line = Some q \<longrightarrow>
      (\<exists>d. qty_search (strip line) = Some d \<and> d \<noteq> [] \<and> list_all is_digit d \<and>
           q = (if length d \<le> 4300 then decimal_value d else 1))) \<and>
   row_items df part_col qty_col =
     map (\<lambda>row. \<lparr>part = upper (strip (as_str (row part_col))),
                  req_qty = (case qty_col of
                               None \<Rightarrow> 1
                             | Some qc \<Rightarrow> (case as_int (row qc) of None \<Rightarrow> 1 | Some n \<Rightarrow> n))\<rparr>)
         (filter (\<lambda>row. upper (strip (as_str (row part_col))) \<noteq> [] \<and>
                         upper (strip (as_str (row part_col))) \<noteq> ''NAN'')
                 (rows df)) \<and>
   (fst (attachment_strategy files as) = Some (xs, label) \<longrightarrow>
      (\<exists>a\<in>set as. \<exists>sheet pc. content a = Sheet sheet \<and>
         xs = row_items sheet pc (find_column_by_name sheet excel_qty_keywords))) \<and>
   (html_table tbl = Some ys \<longrightarrow>
      (\<exists>df' pc. (df' = tbl \<or> df' = promote_header tbl) \<and>
         ys = row_items df' pc (find_column_by_name df' html_qty_keywords)))"
proof -
  have t: "0 \<le> req_qty item" if "item \<in> set (extract_data_from_text enum text)" for item
    using text_quantities [of enum "text"] that quantity_of_line_nonneg by fastforce
  have a: "fst (attachment_strategy files as) = Some (xs, label) \<longrightarrow>
      (\<exists>a\<in>set as. \<exists>sheet pc. content a = Sheet sheet \<and>
         xs = row_items sheet pc (find_column_by_name sheet excel_qty_keywords))"
    using attachment_items [of files as xs label] by blast
  have h: "html_table tbl = Some ys \<longrightarrow>
      (\<exists>df' pc. (df' = tbl \<or> df' = promote_header tbl) \<and>
         ys = row_items df' pc (find_column_by_name df' html_qty_keywords))"
    using html_table_items [of tbl ys] by blast
  have v: "quantity_of_line line = Some q \<longrightarrow>
      (\<exists>d. qty_search (strip line) = Some d \<and> d \<noteq> [] \<and> list_all is_digit d \<and>
           q = (if length d \<le> 4300 then decimal_value d else 1))"
    using quantity_of_line_value [of line q] by blast
  from t text_quantities [of enum "text"] v a h row_items_rows [of df part_col qty_col]
  show ?thesis by blast
qed

text \<open>
  The text \<^verbatim>\<open>P/N: AB-100\<close>, \<^verbatim>\<open>QTY: 3\<close> gives the quantity 3 of its quantity
  line, the decimal value of the digit 3. In the sheet of four rows K-7 keeps its 2, K-8
  gets 1 for its cell \<^verbatim>\<open>TBD\<close>, the row without part number is skipped, and K-9
  keeps its 0.
\<close>

theorem quantity_defaults_witness:
  "extract_data_from_text (\<lambda>xs. xs) (''P/N: AB-100'' @ [CHR 0x0A] @ ''QTY: 3'')
     = [\<lparr>part = ''AB-100'', req_qty = 3\<rparr>] \<and>
   list_all (\<lambda>item. 0 \<le> req_qty item)
     (extract_data_from_text (\<lambda>xs. xs) (''P/N: AB-100'' @ [CHR 0x0A] @ ''QTY: 3'')) \<and>
   (\<exists>d. qty_search (strip ''QTY: 3'') = Some d \<and> d \<noteq> [] \<and> list_all is_digit d \<and>
        (3::int) = (if length d \<le> 4300 then decimal_value d else 1)) \<and>
   row_items order_sheet ''PN'' (Some ''QTY'')
     = [\<lparr>part = ''K-7'', req_qty = 2\<rparr>, \<lparr>part = ''K-8'', req_qty = 1\<rparr>,
        \<lparr>part = ''K-9'', req_qty = 0\<rparr>]"
proof -
  let ?t = "''P/N: AB-100'' @ [CHR 0x0A] @ ''QTY: 3''"
  note inst = quantity_defaults [of "\<lambda>xs. xs" ?t "''QTY: 3''" 3 order_sheet "''PN''" "Some ''QTY''"]
  have e: "extract_data_from_text (\<lambda>xs. xs) ?t = [\<lparr>part = ''AB-100'', req_qty = 3\<rparr>]"
    by code_simp
  have q: "quantity_of_line ''QTY: 3'' = Some 3"
    by code_simp
  have v: "\<exists>d. qty_search (strip ''QTY: 3'') = Some d \<and> d \<noteq> [] \<and> list_all is_digit d \<and>
        (3::int) = (if length d \<le> 4300 then decimal_value d else 1)"
    by (rule inst [THEN conjunct2, THEN conjunct1, THEN mp, OF q])
  have r: "row_items order_sheet ''PN'' (Some ''QTY'')
     = [\<lparr>part = ''K-7'', req_qty = 2\<rparr>, \<lparr>part = ''K-8'', req_qty = 1\<rparr>,
        \<lparr>part = ''K-9'', req_qty = 0\<rparr>]"
    by code_simp
  from e v r show ?thesis by simp
qed

text \<open>
  Claim C2 as the specification words it fails: the text \<^verbatim>\<open>AB-100\<close>,
  \<^verbatim>\<open>QTY: 0\<close> yields an item with requested quantity 0, and a table row whose
  quantity cell holds -2 yields an item with requested quantity -2.
\<close>

theorem zero_quantity_counterexample:
  "extract_data_from_text (\<lambda>xs. xs) (''AB-100'' @ [CHR 0x0A] @ ''QTY: 0'')
     = [\<lparr>part = ''AB-100'', req_qty = 0\<rparr>] \<and>
   row_items (table [''PN'', ''QTY''] [[text_cell ''k-7'', int_cell (- 2)]]) ''PN'' (Some ''QTY'')
     = [\<lparr>part = ''K-7'', req_qty = - 2\<rparr>] \<and>
   fst (extract_data_from_email (\<lambda>xs. xs) {}
          (mail [\<lparr>name = ''req.xlsx'',
                  content = Sheet (table [''PN'', ''QTY''] [[text_cell ''k-7'', int_cell (- 2)]])\<rparr>]
             None))
     = ([\<lparr>part = ''K-7'', req_qty = - 2\<rparr>], ''Excel (req.xlsx)'')"
  by code_simp

text \<open>
  Claim C6 fails on the code for HTML tables. The attachment strategy resolves the part
  column of a sheet headed \<^verbatim>\<open>Item\<close>, \<^verbatim>\<open>Req\<close> and reads its quantity 2. The HTML
  strategy, which passes the lists without ITEM, REQ and QTY REQ, rejects the same
  table, so that the message falls through to the text scanner; in a table headed
  \<^verbatim>\<open>PN\<close>, \<^verbatim>\<open>Req\<close>, and in a table whose first row \<^verbatim>\<open>PN\<close>, \<^verbatim>\<open>Req\<close> is
  promoted to header, it finds the part but no quantity column and gives the row the
  quantity 1 although its cell holds 2.
\<close>

theorem html_keywords_missing:
  "find_column_by_name item_sheet [''P/N'', ''PN'', ''PART'', ''PART NUMBER'', ''ITEM'']
     = Some ''Item'' \<and>
   find_column_by_name item_sheet [''QTY'', ''QUANTITY'', ''REQ'', ''QTY REQ''] = Some ''Req'' \<and>
   fst (extract_data_from_email (\<lambda>xs. xs) {}
          (mail [\<lparr>name = ''req.xlsx'', content = Sheet item_sheet\<rparr>] None))
     = ([\<lparr>part = ''K-7'', req_qty = 2\<rparr>], ''Excel (req.xlsx)'') \<and>
   html_table item_sheet = None \<and>
   fst (extract_data_from_email (\<lambda>xs. xs) {} (mail [] (Some [item_sheet])))
     = ([\<lparr>part = ''K-9'', req_qty = 1\<rparr>], ''Text Scanner'') \<and>
   fst (extract_data_from_email (\<lambda>xs. xs) {}
          (mail [\<lparr>name = ''req.xlsx'', content = Sheet req_sheet\<rparr>] None))
     = ([\<lparr>part = ''K-7'', req_qty = 2\<rparr>], ''Excel (req.xlsx)'') \<and>
   fst (extract_data_from_email (\<lambda>xs. xs) {} (mail [] (Some [req_sheet])))
     = ([\<lparr>part = ''K-7'', req_qty = 1\<rparr>], ''HTML Table'') \<and>
   fst (extract_data_from_email (\<lambda>xs. xs) {} (mail [] (Some [headless_sheet])))
     = ([\<lparr>part = ''K-7'', req_qty = 1\<rparr>], ''HTML Table'')"
  by code_simp

text \<open>
  Claim C4. The attachment whose sheet first has a part-number column, every attachment
  before it being unsatisfied (not a spreadsheet, failed to save or to read, or without
  such a column), decides the result: its rows, under the label of the attachment. When
  the message has no attachments or every attachment is unsatisfied, the first HTML table
  with a part-number column decides it, if the body is not empty and
  \<^verbatim>\<open>pd.read_html\<close> returns; and when the body is empty, \<^verbatim>\<open>pd.read_html\<close>
  raises or no table has such a column, the result is the text scan of the subject and
  the body text. In each case the result is the output of that one strategy.
\<close>

theorem extraction_chain:
  "(has_attachments m \<and> attachments m = pre @ a # post \<and> (\<forall>x\<in>set pre. unsatisfied x) \<and>
    is_spreadsheet (name a) \<and> content a = Sheet df \<and>
    find_column_by_name df excel_part_keywords = Some part_col \<longrightarrow>
      fst (extract_data_from_email enum files m) =
        (row_items df part_col (find_column_by_name df excel_qty_keywords),
         ''Excel ('' @ name a @ '')'')) \<and>
   (\<not> has_attachments m \<or> (\<forall>x\<in>set (attachments m). unsatisfied x) \<longrightarrow>
      (body m \<noteq> [] \<and> read_html m = Some (tpre @ t # tpost) \<and>
       (\<forall>x\<in>set tpre. html_table x = None) \<and> html_table t = Some items \<longrightarrow>
         fst (extract_data_from_email enum files m) = (items, ''HTML Table'')) \<and>
      (body m = [] \<or> read_html m = None \<or>
       (\<exists>dfs. read_html m = Some dfs \<and> (\<forall>x\<in>set dfs. html_table x = None)) \<longrightarrow>
         fst (extract_data_from_email enum files m) =
           (extract_data_from_text enum
              (subject m @ [CHR 0x0A] @ (case get_text m of Some body_text \<Rightarrow> body_text | None \<Rightarrow> [])),
            ''Text Scanner'')))"
proof -
  have one: "fst (extract_data_from_email enum files m) =
        (row_items df part_col (find_column_by_name df excel_qty_keywords),
         ''Excel ('' @ name a @ '')'')"
    if "has_attachments m" "attachments m = pre @ a # post" "\<forall>x\<in>set pre. unsatisfied x"
      "is_spreadsheet (name a)" "content a = Sheet df"
      "find_column_by_name df excel_part_keywords = Some part_col"
  proof -
    have "fst (attachment_strategy files (attachments m)) =
          fst (attachment_strategy files (a # post))"
      using that(2,3) by (simp add: attachment_skip)
    also have "\<dots> = Some (row_items df part_col (find_column_by_name df excel_qty_keywords),
         ''Excel ('' @ name a @ '')'')"
      using that(4-6) by (simp add: attachment_hit)
    finally show ?thesis
      using that(1) by (auto simp: extract_data_from_email_def split: prod.splits)
  qed
  have none: "fst (if has_attachments m then attachment_strategy files (attachments m)
                   else (None, files)) = None"
    if "\<not> has_attachments m \<or> (\<forall>x\<in>set (attachments m). unsatisfied x)"
    using that by (auto simp: attachment_none)
  have two: "fst (extract_data_from_email enum files m) = (items, ''HTML Table'')"
    if "\<not> has_attachments m \<or> (\<forall>x\<in>set (attachments m). unsatisfied x)"
      "body m \<noteq> []" "read_html m = Some (tpre @ t # tpost)"
      "\<forall>x\<in>set tpre. html_table x = None" "html_table t = Some items"
  proof -
    have "html_strategy m = Some items"
      using that(2-5) by (simp add: html_strategy_def html_tables_first)
    with none [OF that(1)] show ?thesis
      by (auto simp: extract_data_from_email_def split: prod.splits option.splits)
  qed
  have three: "fst (extract_data_from_email enum files m) =
           (extract_data_from_text enum
              (subject m @ [CHR 0x0A] @ (case get_text m of Some body_text \<Rightarrow> body_text | None \<Rightarrow> [])),
            ''Text Scanner'')"
    if "\<not> has_attachments m \<or> (\<forall>x\<in>set (attachments m). unsatisfied x)"
      "body m = [] \<or> read_html m = None \<or>
       (\<exists>dfs. read_html m = Some dfs \<and> (\<forall>x\<in>set dfs. html_table x = None))"
  proof -
    have "html_strategy m = None"
      using that(2) by (auto simp: html_strategy_def html_tables_None)
    with none [OF that(1)] show ?thesis
      by (auto simp: extract_data_from_email_def text_strategy_def split: prod.splits option.splits)
  qed
  from one two three show ?thesis by blast
qed

text \<open>
  Three messages. The first has a picture, a workbook that fails to read, a workbook with
  a part-number column and one more workbook: the third attachment decides. The second
  has only the failing workbook and two tables, the second with a part-number column:
  that table decides. The third has the failing workbook and a body without tables: the
  text scanner decides.
\<close>

theorem extraction_chain_witness:
  "fst (extract_data_from_email (\<lambda>xs. xs) {}
          (mail [\<lparr>name = ''photo.png'', content = SaveFailed\<rparr>,
                 \<lparr>name = ''broken.xlsx'', content = ReadFailed\<rparr>,
                 \<lparr>name = ''req.XLSX'', content = Sheet part_sheet\<rparr>,
                 \<lparr>name = ''more.xls'', content = Sheet item_sheet\<rparr>] (Some [part_sheet])))
     = ([\<lparr>part = ''K-7'', req_qty = 2\<rparr>], ''Excel (req.XLSX)'') \<and>
   fst (extract_data_from_email (\<lambda>xs. xs) {}
          (mail [\<lparr>name = ''broken.xlsx'', content = ReadFailed\<rparr>] (Some [notes_sheet, part_sheet])))
     = ([\<lparr>part = ''K-7'', req_qty = 2\<rparr>], ''HTML Table'') \<and>
   fst (extract_data_from_email (\<lambda>xs. xs) {}
          (mail [\<lparr>name = ''broken.xlsx'', content = ReadFailed\<rparr>] None))
     = ([\<lparr>part = ''K-9'', req_qty = 1\<rparr>], ''Text Scanner'')"
proof -
  let ?photo = "\<lparr>name = ''photo.png'', content = SaveFailed\<rparr>"
  let ?broken = "\<lparr>name = ''broken.xlsx'', content = ReadFailed\<rparr>"
  let ?req = "\<lparr>name = ''req.XLSX'', content = Sheet part_sheet\<rparr>"
  let ?more = "\<lparr>name = ''more.xls'', content = Sheet item_sheet\<rparr>"
  let ?m1 = "mail [?photo, ?broken, ?req, ?more] (Some [part_sheet])"
  let ?m2 = "mail [?broken] (Some [notes_sheet, part_sheet])"
  let ?m3 = "mail [?broken] None"
  have h1: "has_attachments ?m1"
    by (simp add: mail_def)
  have h2: "attachments ?m1 = [?photo, ?broken] @ ?req # [?more]"
    by (simp add: mail_def)
  have h3: "\<forall>x\<in>set [?photo, ?broken]. unsatisfied x"
    by code_simp
  have h4: "is_spreadsheet (name ?req)"
    by code_simp
  have h5: "content ?req = Sheet part_sheet"
    by simp
  have h6: "find_column_by_name part_sheet excel_part_keywords = Some '' pn ''"
    by code_simp
  have c1: "fst (extract_data_from_email (\<lambda>xs. xs) {} ?m1) =
              (row_items part_sheet '' pn '' (find_column_by_name part_sheet excel_qty_keywords),
               ''Excel ('' @ name ?req @ '')'')"
    by (rule extraction_chain [of ?m1 "[?photo, ?broken]" ?req "[?more]" part_sheet "'' pn ''"
          "\<lambda>xs. xs" "{}", THEN conjunct1, THEN mp,
          OF conjI [OF h1 conjI [OF h2 conjI [OF h3 conjI [OF h4 conjI [OF h5 h6]]]]]])
  have r1: "row_items part_sheet '' pn '' (find_column_by_name part_sheet excel_qty_keywords)
            = [\<lparr>part = ''K-7'', req_qty = 2\<rparr>]"
    by code_simp
  have u: "\<forall>x\<in>set [?broken]. unsatisfied x"
    by code_simp
  have g2: "\<not> has_attachments ?m2 \<or> (\<forall>x\<in>set (attachments ?m2). unsatisfied x)"
    using u by (simp add: mail_def)
  have k1: "body ?m2 \<noteq> []"
    by (simp add: mail_def)
  have k2: "read_html ?m2 = Some ([notes_sheet] @ part_sheet # [])"
    by (simp add: mail_def)
  have k3: "\<forall>x\<in>set [notes_sheet]. html_table x = None"
    by code_simp
  have k4: "html_table part_sheet = Some [\<lparr>part = ''K-7'', req_qty = 2\<rparr>]"
    by code_simp
  have c2: "fst (extract_data_from_email (\<lambda>xs. xs) {} ?m2)
            = ([\<lparr>part = ''K-7'', req_qty = 2\<rparr>], ''HTML Table'')"
    by (rule extraction_chain [of ?m2 _ _ _ _ _ "\<lambda>xs. xs" "{}" "[notes_sheet]" part_sheet "[]"
          "[\<lparr>part = ''K-7'', req_qty = 2\<rparr>]", THEN conjunct2, THEN mp, OF g2,
          THEN conjunct1, THEN mp, OF conjI [OF k1 conjI [OF k2 conjI [OF k3 k4]]]])
  have g3: "\<not> has_attachments ?m3 \<or> (\<forall>x\<in>set (attachments ?m3). unsatisfied x)"
    using u by (simp add: mail_def)
  have k5: "body ?m3 = [] \<or> read_html ?m3 = None \<or>
            (\<exists>dfs. read_html ?m3 = Some dfs \<and> (\<forall>x\<in>set dfs. html_table x = None))"
    by (simp add: mail_def)
  have c3: "fst (extract_data_from_email (\<lambda>xs. xs) {} ?m3) =
              (extract_data_from_text (\<lambda>xs. xs)
                 (subject ?m3 @ [CHR 0x0A] @
                  (case get_text ?m3 of Some body_text \<Rightarrow> body_text | None \<Rightarrow> [])),
               ''Text Scanner'')"
    by (rule extraction_chain [THEN conjunct2, THEN mp, OF g3, THEN conjunct2, THEN mp, OF k5])
  have r3: "extract_data_from_text (\<lambda>xs. xs)
              (subject ?m3 @ [CHR 0x0A] @
               (case get_text ?m3 of Some body_text \<Rightarrow> body_text | None \<Rightarrow> []))
            = [\<lparr>part = ''K-9'', req_qty = 1\<rparr>]"
    by code_simp
  show ?thesis
    unfolding c1 c2 c3 r1 r3 by simp
qed
text \<open>
  Claim C5 fails on the code. The copy of a workbook without a part-number column, and
  the copy of a workbook that fails to read, are still in the temporary directory when
  extraction returns; only the copy of a workbook that yields the result is removed.
\<close>

theorem temp_copy_left_behind:
  "snd (extract_data_from_email (\<lambda>xs. xs) {}
          (mail [\<lparr>name = ''req.xlsx'', content = Sheet notes_sheet\<rparr>] None)) = {''req.xlsx''} \<and>
   snd (extract_data_from_email (\<lambda>xs. xs) {}
          (mail [\<lparr>name = ''req.xlsx'', content = ReadFailed\<rparr>] None)) = {''req.xlsx''} \<and>
   snd (extract_data_from_email (\<lambda>xs. xs) {}
          (mail [\<lparr>name = ''req.xlsx'', content = Sheet part_sheet\<rparr>] None)) = {}"
  by code_simp


end
